theory Spec2Isabelle
  imports Complex_Main "HOL-Library.Multiset"
begin

section \<open>Python values and exceptions\<close>

text \<open>
  The exceptions that the modelled code raises or lets through. A function that can raise
  returns \<open>exn + 'a\<close>, with \<open>Inl\<close> for the exception.
\<close>

datatype exn =
    RuntimeError string
  | TypeError string
  | AttributeError string
  | OverflowError string
  | KeyError string
  | ValueError string
  | JSONDecodeError string
  | BackendError string

section \<open>Health aggregation (health\_service.py)\<close>

datatype HealthStatus = HEALTHY | DEGRADED | UNHEALTHY | UNKNOWN

text \<open>
  \<open>ComponentHealth\<close> is a named tuple; the reduction reads only \<open>status\<close>. The fields
  \<open>response_time_ms\<close>, \<open>last_check\<close> and \<open>metadata\<close> live in the record extension.
\<close>

record ComponentHealth =
  name :: string
  status :: HealthStatus
  message :: string

text \<open>
  A Python dict keeps insertion order; assigning to a key that is present replaces the value
  in place. \<open>dict_update\<close> is \<open>d.update(other)\<close>.
\<close>

fun dict_set :: "('k \<times> 'v) list \<Rightarrow> 'k \<Rightarrow> 'v \<Rightarrow> ('k \<times> 'v) list" where
  "dict_set [] k v = [(k, v)]"
| "dict_set ((k', v') # kvs) k v =
     (if k' = k then (k, v) # kvs else (k', v') # dict_set kvs k v)"

fun dict_update :: "('k \<times> 'v) list \<Rightarrow> ('k \<times> 'v) list \<Rightarrow> ('k \<times> 'v) list" where
  "dict_update d [] = d"
| "dict_update d ((k, v) # kvs) = dict_update (dict_set d k v) kvs"







section \<open>Time (datetime, timedelta)\<close>

text \<open>
  A \<open>datetime\<close> is a number of microseconds since \<open>datetime.min\<close>
  (0001-01-01T00:00:00), the resolution of Python's type. \<open>datetime.max\<close> is
  9999-12-31T23:59:59.999999. \<open>timedelta(seconds=n)\<close> raises OverflowError when its
  number of days leaves the range of plus or minus 999999999, and adding a timedelta to a
  datetime raises OverflowError when the result leaves the range of the type.
\<close>

type_synonym datetime = int

definition datetime_max :: datetime where
  "datetime_max = 315537897599999999"

definition timedelta_seconds :: "int \<Rightarrow> exn + int" where
  "timedelta_seconds n =
     (if n div 86400 < - 999999999 \<or> 999999999 < n div 86400
      then Inl (OverflowError ''days out of range'')
      else Inr (n * 1000000))"

definition datetime_add :: "datetime \<Rightarrow> int \<Rightarrow> exn + datetime" where
  "datetime_add t d =
     (if t + d < 0 \<or> datetime_max < t + d
      then Inl (OverflowError ''date value out of range'')
      else Inr (t + d))"

section \<open>Process-local cache store (cache\_service.py, InMemoryCacheService)\<close>

text \<open>
  A cached value is any Python object; the code only ever asks whether it is \<open>None\<close>.
\<close>

datatype 'v pyval = PyNone | PyVal 'v

text \<open>
  An entry of \<open>self.cache\<close> is a dict with the keys \<open>value\<close>, \<open>expires_at\<close> and
  \<open>created_at\<close>. \<open>_is_expired\<close> allows for an entry without \<open>expires_at\<close>, so
  that field is optional here.
\<close>

record 'v cache_entry =
  val :: "'v pyval"
  expires_at :: "datetime option"
  created_at :: datetime

definition dict_get :: "('k \<times> 'v) list \<Rightarrow> 'k \<Rightarrow> 'v option" where
  "dict_get d k = map_of d k"

definition dict_del :: "('k \<times> 'v) list \<Rightarrow> 'k \<Rightarrow> ('k \<times> 'v) list" where
  "dict_del d k = filter (\<lambda>kv. fst kv \<noteq> k) d"

record 'v InMemoryCacheService =
  cache :: "(string \<times> 'v cache_entry) list"
  default_ttl :: int

definition InMemoryCacheService_init :: "'v InMemoryCacheService" where
  "InMemoryCacheService_init = \<lparr>cache = [], default_ttl = 3600\<rparr>"

definition default_namespace :: string where
  "default_namespace = ''default''"

definition InMemory_make_key :: "string \<Rightarrow> string \<Rightarrow> string" where
  "InMemory_make_key key namespace = namespace @ '':'' @ key"

text \<open>\<open>_is_expired\<close>; \<open>now\<close> is what \<open>datetime.utcnow()\<close> returns in it.\<close>

definition is_expired :: "datetime \<Rightarrow> 'v cache_entry \<Rightarrow> bool" where
  "is_expired now cache_entry =
     (case expires_at cache_entry of None \<Rightarrow> False | Some e \<Rightarrow> e < now)"

text \<open>\<open>ttl or self.default_ttl\<close>: \<open>None\<close> and \<open>0\<close> are both falsy.\<close>

definition ttl_or :: "int option \<Rightarrow> int \<Rightarrow> int" where
  "ttl_or ttl d = (case ttl of None \<Rightarrow> d | Some n \<Rightarrow> if n = 0 then d else n)"

definition InMemory_get ::
  "'v InMemoryCacheService \<Rightarrow> datetime \<Rightarrow> string \<Rightarrow> string \<Rightarrow>
   'v pyval \<times> 'v InMemoryCacheService" where
  "InMemory_get svc now key namespace =
     (let cache_key = InMemory_make_key key namespace in
      case dict_get (cache svc) cache_key of
        None \<Rightarrow> (PyNone, svc)
      | Some entry \<Rightarrow>
          if is_expired now entry
          then (PyNone, svc\<lparr>cache := dict_del (cache svc) cache_key\<rparr>)
          else (val entry, svc))"

text \<open>
  \<open>set\<close> reads the clock twice: \<open>now1\<close> for \<open>expires_at\<close>, before taking the lock, and
  \<open>now2\<close> for \<open>created_at\<close>, under the lock. An OverflowError of the date arithmetic
  leaves the store as it was.
\<close>

definition InMemory_set ::
  "'v InMemoryCacheService \<Rightarrow> datetime \<Rightarrow> datetime \<Rightarrow> string \<Rightarrow> 'v pyval \<Rightarrow>
   int option \<Rightarrow> string \<Rightarrow> exn + (bool \<times> 'v InMemoryCacheService)" where
  "InMemory_set svc now1 now2 key v ttl namespace =
     (let cache_key = InMemory_make_key key namespace;
          ttl' = ttl_or ttl (default_ttl svc) in
      case timedelta_seconds ttl' of
        Inl e \<Rightarrow> Inl e
      | Inr d \<Rightarrow>
         (case datetime_add now1 d of
            Inl e \<Rightarrow> Inl e
          | Inr expires \<Rightarrow>
              Inr (True, svc\<lparr>cache := dict_set (cache svc) cache_key
                     \<lparr>val = v, expires_at = Some expires, created_at = now2\<rparr>\<rparr>)))"

definition InMemory_delete ::
  "'v InMemoryCacheService \<Rightarrow> string \<Rightarrow> string \<Rightarrow> bool \<times> 'v InMemoryCacheService" where
  "InMemory_delete svc key namespace =
     (let cache_key = InMemory_make_key key namespace in
      case dict_get (cache svc) cache_key of
        Some entry \<Rightarrow> (True, svc\<lparr>cache := dict_del (cache svc) cache_key\<rparr>)
      | None \<Rightarrow> (False, svc))"

definition InMemory_exists ::
  "'v InMemoryCacheService \<Rightarrow> datetime \<Rightarrow> string \<Rightarrow> string \<Rightarrow>
   bool \<times> 'v InMemoryCacheService" where
  "InMemory_exists svc now key namespace =
     (let cache_key = InMemory_make_key key namespace in
      case dict_get (cache svc) cache_key of
        None \<Rightarrow> (False, svc)
      | Some entry \<Rightarrow>
          if is_expired now entry
          then (False, svc\<lparr>cache := dict_del (cache svc) cache_key\<rparr>)
          else (True, svc))"

section \<open>Cache manager (cache\_service.py, CacheManager)\<close>

text \<open>
  The manager owns the two counters and calls the cache service. \<open>value_func\<close> is called
  without arguments; it acts on the world \<open>'w\<close> outside the cache and returns a value or
  raises. The three clock readings of \<open>get_or_set\<close> are those taken in turn by \<open>get\<close>
  and, on a miss, by \<open>set\<close>.
\<close>

record 'v CacheManager =
  cache_service :: "'v InMemoryCacheService"
  hit_count :: nat
  miss_count :: nat


definition get_or_set ::
  "'v CacheManager \<Rightarrow> datetime \<Rightarrow> datetime \<Rightarrow> datetime \<Rightarrow> string \<Rightarrow>
   ('w \<Rightarrow> (exn + 'v pyval) \<times> 'w) \<Rightarrow> 'w \<Rightarrow> int option \<Rightarrow> string \<Rightarrow>
   (exn + 'v pyval) \<times> 'v CacheManager \<times> 'w" where
  "get_or_set m now_get now1 now2 key value_func w ttl namespace =
     (case InMemory_get (cache_service m) now_get key namespace of
        (cached_value, svc1) \<Rightarrow>
          if cached_value \<noteq> PyNone
          then (Inr cached_value, m\<lparr>cache_service := svc1, hit_count := hit_count m + 1\<rparr>, w)
          else
            let m1 = m\<lparr>cache_service := svc1, miss_count := miss_count m + 1\<rparr> in
            case value_func w of
              (Inl e, w') \<Rightarrow> (Inl e, m1, w')
            | (Inr new_value, w') \<Rightarrow>
                (case InMemory_set svc1 now1 now2 key new_value ttl namespace of
                   Inl e \<Rightarrow> (Inl e, m1, w')
                 | Inr (ok, svc2) \<Rightarrow> (Inr new_value, m1\<lparr>cache_service := svc2\<rparr>, w')))"

text \<open>\<open>mget\<close>: each key comes with the clock reading of its \<open>get\<close>.\<close>

fun mget_loop ::
  "'v InMemoryCacheService \<Rightarrow> (string \<times> 'v pyval) list \<Rightarrow> (string \<times> datetime) list \<Rightarrow>
   string \<Rightarrow> (string \<times> 'v pyval) list \<times> 'v InMemoryCacheService" where
  "mget_loop svc results [] namespace = (results, svc)"
| "mget_loop svc results ((key, now) # rest) namespace =
     (case InMemory_get svc now key namespace of
        (v, svc') \<Rightarrow>
          if v \<noteq> PyNone then mget_loop svc' (dict_set results key v) rest namespace
          else mget_loop svc' results rest namespace)"

definition mget ::
  "'v CacheManager \<Rightarrow> (string \<times> datetime) list \<Rightarrow> string \<Rightarrow>
   (string \<times> 'v pyval) list \<times> 'v CacheManager" where
  "mget m keys namespace =
     (case mget_loop (cache_service m) [] keys namespace of
        (results, svc') \<Rightarrow> (results, m\<lparr>cache_service := svc'\<rparr>))"

text \<open>
  The numbers that \<open>get_cache_stats\<close> handles are Python ints and floats: \<open>hit_ratio\<close>
  is the int \<open>0\<close> when no request was made and a float otherwise. \<open>'f\<close> is the type
  of floats.
\<close>

datatype 'f pynum = PyInt int | PyFloat 'f

text \<open>
  The float arithmetic of the interpreter, outside the repository: \<open>a / b\<close> on two ints
  (true division, \<open>b\<close> not zero), \<open>x * n\<close> on a float and an int, and the builtin
  \<open>round(x, ndigits)\<close> on a float.
\<close>

record 'f float_ops =
  int_truediv :: "int \<Rightarrow> int \<Rightarrow> 'f"
  float_mul_int :: "'f \<Rightarrow> int \<Rightarrow> 'f"
  float_round :: "'f \<Rightarrow> int \<Rightarrow> 'f"

text \<open>
  To the nearest integer, a tie going to the even one.
\<close>

definition round_half_even :: "rat \<Rightarrow> int" where
  "round_half_even x =
     (let f = \<lfloor>x\<rfloor>; d = x - of_int f in
      if d < 1 / 2 then f
      else if 1 / 2 < d then f + 1
      else if even f then f else f + 1)"

text \<open>
  The builtin \<open>round(number, ndigits)\<close> dispatches on the type of the number. On an int
  it returns an int: the number itself when \<open>ndigits\<close> is not negative, and otherwise the
  nearest multiple of \<open>10 ** -ndigits\<close>, a tie going to the even multiple.
\<close>

definition int_round :: "int \<Rightarrow> int \<Rightarrow> int" where
  "int_round i ndigits =
     (if 0 \<le> ndigits then i
      else round_half_even (of_int i / 10 ^ nat (- ndigits)) * 10 ^ nat (- ndigits))"

definition round_py :: "'f float_ops \<Rightarrow> 'f pynum \<Rightarrow> int \<Rightarrow> 'f pynum" where
  "round_py lib number ndigits =
     (case number of
        PyInt i \<Rightarrow> PyInt (int_round i ndigits)
      | PyFloat x \<Rightarrow> PyFloat (float_round lib x ndigits))"

text \<open>
  The four entries that \<open>get_cache_stats\<close> adds to the statistics of the cache service
  (the dict keys \<open>hit_count\<close>, \<open>miss_count\<close>, \<open>total_requests\<close>,
  \<open>hit_ratio_percent\<close>); they override entries of the service under the same keys.
\<close>

record 'f cache_stats =
  stats_hit_count :: nat
  stats_miss_count :: nat
  stats_total_requests :: nat
  stats_hit_ratio_percent :: "'f pynum"

definition get_cache_stats :: "'f float_ops \<Rightarrow> 'v CacheManager \<Rightarrow> 'f cache_stats" where
  "get_cache_stats lib m =
     (let total_requests = hit_count m + miss_count m;
          hit_ratio = (if total_requests > 0
                       then PyFloat (float_mul_int lib
                              (int_truediv lib (int (hit_count m)) (int total_requests)) 100)
                       else PyInt 0)
      in \<lparr>stats_hit_count = hit_count m, stats_miss_count = miss_count m,
          stats_total_requests = total_requests,
          stats_hit_ratio_percent = round_py lib hit_ratio 2\<rparr>)"

text \<open>
  CPython's floats are IEEE 754 binary64 numbers. A finite one is a rational; the operations
  are the exact ones followed by rounding to the nearest binary64 number, a tie going to the
  even significand. \<open>bit_length n\<close> is the number of binary digits of \<open>n\<close>, and
  \<open>ilog2 x\<close> for a positive \<open>x\<close> is the exponent \<open>e\<close> with
  \<open>2 ^ e \<le> x < 2 ^ (e + 1)\<close>.
\<close>

fun bit_length :: "nat \<Rightarrow> nat" where
  "bit_length 0 = 0"
| "bit_length (Suc n) = Suc (bit_length (Suc n div 2))"

definition ilog2 :: "rat \<Rightarrow> int" where
  "ilog2 x = (if 1 \<le> x then int (bit_length (nat \<lfloor>x\<rfloor>)) - 1
              else - int (bit_length (nat (\<lceil>1 / x\<rceil> - 1))))"

text \<open>
  \<open>double_of x\<close> is the binary64 number nearest to \<open>x\<close>: a multiple of the spacing
  \<open>2 ^ (e - 52)\<close> of the binade of \<open>x\<close>, where the exponent is not below that of the
  subnormal numbers. Numbers beyond the largest finite binary64 number, where the interpreter
  raises or returns an infinity, are outside the model; the numbers of \<open>get_cache_stats\<close>
  lie between 0 and 101.
\<close>

definition double_of :: "rat \<Rightarrow> rat" where
  "double_of x =
     (if x = 0 then 0
      else let q = 2 powi (max (ilog2 \<bar>x\<bar>) (- 1022) - 52)
           in of_int (round_half_even (x / q)) * q)"

text \<open>
  \<open>round(x, ndigits)\<close> on a float: the exact value of \<open>x\<close> is rounded to
  \<open>ndigits\<close> decimals, a tie going to the even last digit, and the decimal number is
  converted to the nearest float.
\<close>

definition round_decimal :: "rat \<Rightarrow> int \<Rightarrow> rat" where
  "round_decimal x ndigits =
     (if 0 \<le> ndigits
      then of_int (round_half_even (x * 10 ^ nat ndigits)) / 10 ^ nat ndigits
      else of_int (round_half_even (x / 10 ^ nat (- ndigits))) * 10 ^ nat (- ndigits))"

definition ieee_double :: "rat float_ops" where
  "ieee_double =
     \<lparr>int_truediv = (\<lambda>a b. double_of (of_int a / of_int b)),
      float_mul_int = (\<lambda>x n. double_of (x * double_of (of_int n))),
      float_round = (\<lambda>x ndigits. double_of (round_decimal x ndigits))\<rparr>"

text \<open>
  A run of \<open>get_or_set\<close> calls on one key with one \<open>value_func\<close>; each call has its own
  clock readings and ttl.
\<close>

fun get_or_set_run ::
  "'v CacheManager \<Rightarrow> 'w \<Rightarrow> string \<Rightarrow> ('w \<Rightarrow> (exn + 'v pyval) \<times> 'w) \<Rightarrow> string \<Rightarrow>
   (datetime \<times> datetime \<times> datetime \<times> int option) list \<Rightarrow> 'v CacheManager \<times> 'w" where
  "get_or_set_run m w key value_func namespace [] = (m, w)"
| "get_or_set_run m w key value_func namespace ((now_get, now1, now2, ttl) # calls) =
     (case get_or_set m now_get now1 now2 key value_func w ttl namespace of
        (r, m', w') \<Rightarrow> get_or_set_run m' w' key value_func namespace calls)"

text \<open>
  The key has no entry, or its entry holds \<open>None\<close>.
\<close>

definition none_or_absent :: "'v InMemoryCacheService \<Rightarrow> string \<Rightarrow> string \<Rightarrow> bool" where
  "none_or_absent svc key namespace =
     (case dict_get (cache svc) (InMemory_make_key key namespace) of
        None \<Rightarrow> True | Some e \<Rightarrow> val e = PyNone)"

text \<open>
  A manager whose store holds \<open>None\<close> under the key \<open>k\<close>, and a \<open>value_func\<close> that
  returns \<open>None\<close> and counts its calls.
\<close>

definition m_none :: "nat CacheManager" where
  "m_none = \<lparr>cache_service = \<lparr>cache = [(''default:k'',
       \<lparr>val = PyNone, expires_at = Some 100, created_at = 0\<rparr>)], default_ttl = 3600\<rparr>,
     hit_count = 0, miss_count = 0\<rparr>"

definition counting_None :: "nat \<Rightarrow> (exn + nat pyval) \<times> nat" where
  "counting_None n = (Inr PyNone, Suc n)"



section \<open>Cache-key derivation (cache\_service.py, CacheManager)\<close>

text \<open>
  \<open>context or ''\<close>: \<open>None\<close> and the empty string are both falsy and both give the empty
  string.
\<close>

definition context_or_empty :: "string option \<Rightarrow> string" where
  "context_or_empty context = (case context of None \<Rightarrow> [] | Some c \<Rightarrow> if c = [] then [] else c)"

text \<open>The f-string \<open>{code}|{language}|{context or ''}\<close>.\<close>

definition suggestion_content :: "string \<Rightarrow> string \<Rightarrow> string option \<Rightarrow> string" where
  "suggestion_content code language context =
     code @ ''|'' @ language @ ''|'' @ context_or_empty context"

text \<open>
  \<open>sha256(content.encode()).hexdigest()\<close> is the library's; it enters as the parameter
  \<open>digest\<close>, a function of the content string.
\<close>

definition cache_key_for_suggestion ::
  "(string \<Rightarrow> string) \<Rightarrow> string \<Rightarrow> string \<Rightarrow> string option \<Rightarrow> string" where
  "cache_key_for_suggestion digest code language context =
     digest (suggestion_content code language context)"

section \<open>The Redis client (redis.asyncio, outside the repository)\<close>

text \<open>
  The client library and the server behind it are not part of the repository. A backend is
  a record of command handlers over a backend state \<open>'r\<close>: each takes the state and gives
  the reply, or the exception it raises, and the next state. Nothing is assumed about the
  handlers, so a statement for all backends covers every failure of the transport.
  \<open>pipe_cmd\<close> are the commands that the code queues on a pipeline; \<open>r_execute\<close> runs
  the queue.
\<close>

datatype pipe_cmd =
    PHSet string "(string \<times> string) list"
  | PHSetField string string string
  | PExpire string int
  | PSetEx string string int
  | PSAdd string string
  | PSRem string string
  | PDelete string

record 'r redis =
  r_get :: "string \<Rightarrow> 'r \<Rightarrow> (exn + string option) \<times> 'r"
  r_setex :: "string \<Rightarrow> int \<Rightarrow> string \<Rightarrow> 'r \<Rightarrow> (exn + unit) \<times> 'r"
  r_delete :: "string list \<Rightarrow> 'r \<Rightarrow> (exn + int) \<times> 'r"
  r_exists :: "string \<Rightarrow> 'r \<Rightarrow> (exn + int) \<times> 'r"
  r_keys :: "string \<Rightarrow> 'r \<Rightarrow> (exn + string list) \<times> 'r"
  r_hgetall :: "string \<Rightarrow> 'r \<Rightarrow> (exn + (string \<times> string) list) \<times> 'r"
  r_hset :: "string \<Rightarrow> (string \<times> string) list \<Rightarrow> 'r \<Rightarrow> (exn + unit) \<times> 'r"
  r_expire :: "string \<Rightarrow> int \<Rightarrow> 'r \<Rightarrow> (exn + unit) \<times> 'r"
  r_srem :: "string \<Rightarrow> string \<Rightarrow> 'r \<Rightarrow> (exn + unit) \<times> 'r"
  r_smembers :: "string \<Rightarrow> 'r \<Rightarrow> (exn + string list) \<times> 'r"
  r_scard :: "string \<Rightarrow> 'r \<Rightarrow> (exn + int) \<times> 'r"
  r_execute :: "pipe_cmd list \<Rightarrow> 'r \<Rightarrow> (exn + unit) \<times> 'r"

text \<open>A backend on which every command raises.\<close>

definition connection_lost :: exn where
  "connection_lost = BackendError ''connection lost''"

definition broken_redis :: "unit redis" where
  "broken_redis =
     \<lparr>r_get = (\<lambda>k r. (Inl connection_lost, r)),
      r_setex = (\<lambda>k t v r. (Inl connection_lost, r)),
      r_delete = (\<lambda>ks r. (Inl connection_lost, r)),
      r_exists = (\<lambda>k r. (Inl connection_lost, r)),
      r_keys = (\<lambda>p r. (Inl connection_lost, r)),
      r_hgetall = (\<lambda>k r. (Inl connection_lost, r)),
      r_hset = (\<lambda>k m r. (Inl connection_lost, r)),
      r_expire = (\<lambda>k t r. (Inl connection_lost, r)),
      r_srem = (\<lambda>k m r. (Inl connection_lost, r)),
      r_smembers = (\<lambda>k r. (Inl connection_lost, r)),
      r_scard = (\<lambda>k r. (Inl connection_lost, r)),
      r_execute = (\<lambda>cs r. (Inl connection_lost, r))\<rparr>"

definition not_connected :: exn where
  "not_connected = RuntimeError ''Redis client not connected''"

section \<open>Durable cache store (cache\_service.py, RedisCacheService)\<close>

text \<open>
  \<open>redis_client\<close> is \<open>None\<close> until \<open>connect\<close> has run; afterwards it stands for the
  backend in its current state. \<open>json.dumps\<close> and \<open>json.loads\<close> are the library's and
  enter as parameters: \<open>dumps tag v\<close> is \<open>json.dumps({"type": tag, "value": v})\<close>,
  \<open>loads\<close> is \<open>json.loads\<close>, \<open>data_get_value\<close> is \<open>data.get("value")\<close> (which raises
  when the parsed data is not a dict), \<open>is_simple\<close> is the \<open>isinstance\<close> test and
  \<open>of_str\<close> reads a string as a cached value.
\<close>

record ('v, 'j) json_lib =
  is_simple :: "'v pyval \<Rightarrow> bool"
  dumps :: "string \<Rightarrow> 'v pyval \<Rightarrow> exn + string"
  loads :: "string \<Rightarrow> exn + 'j"
  data_get_value :: "'j \<Rightarrow> exn + 'v pyval"
  of_str :: "string \<Rightarrow> 'v"

record 'r RedisCacheService =
  redis_client :: "'r option"
  default_ttl :: int
  key_prefix :: string

definition RedisCacheService_init :: "'r RedisCacheService" where
  "RedisCacheService_init =
     \<lparr>redis_client = None, default_ttl = 3600, key_prefix = ''mcp_cache:''\<rparr>"

definition Redis_make_key :: "'r RedisCacheService \<Rightarrow> string \<Rightarrow> string \<Rightarrow> string" where
  "Redis_make_key svc key namespace = key_prefix svc @ namespace @ '':'' @ key"

definition serialize_value :: "('v, 'j) json_lib \<Rightarrow> 'v pyval \<Rightarrow> exn + string" where
  "serialize_value lib v =
     (if is_simple lib v then dumps lib ''simple'' v else dumps lib ''complex'' v)"

text \<open>\<open>except (json.JSONDecodeError, KeyError)\<close>.\<close>

fun is_decode_or_key_error :: "exn \<Rightarrow> bool" where
  "is_decode_or_key_error (JSONDecodeError m) = True"
| "is_decode_or_key_error (KeyError m) = True"
| "is_decode_or_key_error e = False"

definition deserialize_value :: "('v, 'j) json_lib \<Rightarrow> string \<Rightarrow> exn + 'v pyval" where
  "deserialize_value lib serialized =
     (case (case loads lib serialized of
              Inl e \<Rightarrow> Inl e
            | Inr data \<Rightarrow> data_get_value lib data) of
        Inl e \<Rightarrow> if is_decode_or_key_error e then Inr (PyVal (of_str lib serialized)) else Inl e
      | Inr v \<Rightarrow> Inr v)"

definition Redis_get ::
  "'r redis \<Rightarrow> ('v, 'j) json_lib \<Rightarrow> 'r RedisCacheService \<Rightarrow> string \<Rightarrow> string \<Rightarrow>
   (exn + 'v pyval) \<times> 'r RedisCacheService" where
  "Redis_get cl lib svc key namespace =
     (case redis_client svc of
        None \<Rightarrow> (Inl not_connected, svc)
      | Some r \<Rightarrow>
          let cache_key = Redis_make_key svc key namespace in
          case r_get cl cache_key r of
            (Inl e, r') \<Rightarrow> (Inr PyNone, svc\<lparr>redis_client := Some r'\<rparr>)
          | (Inr None, r') \<Rightarrow> (Inr PyNone, svc\<lparr>redis_client := Some r'\<rparr>)
          | (Inr (Some v), r') \<Rightarrow>
              (case deserialize_value lib v of
                 Inl e \<Rightarrow> (Inr PyNone, svc\<lparr>redis_client := Some r'\<rparr>)
               | Inr x \<Rightarrow> (Inr x, svc\<lparr>redis_client := Some r'\<rparr>)))"

definition Redis_set ::
  "'r redis \<Rightarrow> ('v, 'j) json_lib \<Rightarrow> 'r RedisCacheService \<Rightarrow> string \<Rightarrow> 'v pyval \<Rightarrow>
   int option \<Rightarrow> string \<Rightarrow> (exn + bool) \<times> 'r RedisCacheService" where
  "Redis_set cl lib svc key v ttl namespace =
     (case redis_client svc of
        None \<Rightarrow> (Inl not_connected, svc)
      | Some r \<Rightarrow>
          let cache_key = Redis_make_key svc key namespace;
              ttl' = ttl_or ttl (default_ttl svc) in
          case serialize_value lib v of
            Inl e \<Rightarrow> (Inr False, svc)
          | Inr serialized_value \<Rightarrow>
              (case r_setex cl cache_key ttl' serialized_value r of
                 (Inl e, r') \<Rightarrow> (Inr False, svc\<lparr>redis_client := Some r'\<rparr>)
               | (Inr u, r') \<Rightarrow> (Inr True, svc\<lparr>redis_client := Some r'\<rparr>)))"

definition Redis_delete ::
  "'r redis \<Rightarrow> 'r RedisCacheService \<Rightarrow> string \<Rightarrow> string \<Rightarrow>
   (exn + bool) \<times> 'r RedisCacheService" where
  "Redis_delete cl svc key namespace =
     (case redis_client svc of
        None \<Rightarrow> (Inl not_connected, svc)
      | Some r \<Rightarrow>
          let cache_key = Redis_make_key svc key namespace in
          case r_delete cl [cache_key] r of
            (Inl e, r') \<Rightarrow> (Inr False, svc\<lparr>redis_client := Some r'\<rparr>)
          | (Inr result, r') \<Rightarrow> (Inr (result > 0), svc\<lparr>redis_client := Some r'\<rparr>))"

definition Redis_exists ::
  "'r redis \<Rightarrow> 'r RedisCacheService \<Rightarrow> string \<Rightarrow> string \<Rightarrow>
   (exn + bool) \<times> 'r RedisCacheService" where
  "Redis_exists cl svc key namespace =
     (case redis_client svc of
        None \<Rightarrow> (Inl not_connected, svc)
      | Some r \<Rightarrow>
          let cache_key = Redis_make_key svc key namespace in
          case r_exists cl cache_key r of
            (Inl e, r') \<Rightarrow> (Inr False, svc\<lparr>redis_client := Some r'\<rparr>)
          | (Inr result, r') \<Rightarrow> (Inr (result > 0), svc\<lparr>redis_client := Some r'\<rparr>))"

definition Redis_clear_namespace ::
  "'r redis \<Rightarrow> 'r RedisCacheService \<Rightarrow> string \<Rightarrow> (exn + int) \<times> 'r RedisCacheService" where
  "Redis_clear_namespace cl svc namespace =
     (case redis_client svc of
        None \<Rightarrow> (Inl not_connected, svc)
      | Some r \<Rightarrow>
          let pattern = key_prefix svc @ namespace @ '':*'' in
          case r_keys cl pattern r of
            (Inl e, r') \<Rightarrow> (Inr 0, svc\<lparr>redis_client := Some r'\<rparr>)
          | (Inr keys, r') \<Rightarrow>
              if keys \<noteq> [] then
                (case r_delete cl keys r' of
                   (Inl e, r'') \<Rightarrow> (Inr 0, svc\<lparr>redis_client := Some r''\<rparr>)
                 | (Inr n, r'') \<Rightarrow> (Inr n, svc\<lparr>redis_client := Some r''\<rparr>))
              else (Inr 0, svc\<lparr>redis_client := Some r'\<rparr>))"

section \<open>Session records (types.py)\<close>

datatype SessionStatus = ACTIVE | INACTIVE | EXPIRED | BLOCKED

text \<open>\<open>status.value\<close>, \<open>SessionStatus(value)\<close> and the attribute \<open>SessionStatus.NAME\<close>.\<close>

fun SessionStatus_value :: "SessionStatus \<Rightarrow> string" where
  "SessionStatus_value ACTIVE = ''active''"
| "SessionStatus_value INACTIVE = ''inactive''"
| "SessionStatus_value EXPIRED = ''expired''"
| "SessionStatus_value BLOCKED = ''blocked''"

definition SessionStatus_of_value :: "string \<Rightarrow> SessionStatus option" where
  "SessionStatus_of_value v =
     (if v = ''active'' then Some ACTIVE
      else if v = ''inactive'' then Some INACTIVE
      else if v = ''expired'' then Some EXPIRED
      else if v = ''blocked'' then Some BLOCKED
      else None)"

definition SessionStatus_member :: "string \<Rightarrow> exn + SessionStatus" where
  "SessionStatus_member n =
     (if n = ''ACTIVE'' then Inr ACTIVE
      else if n = ''INACTIVE'' then Inr INACTIVE
      else if n = ''EXPIRED'' then Inr EXPIRED
      else if n = ''BLOCKED'' then Inr BLOCKED
      else Inl (AttributeError n))"

text \<open>
  The values that are passed to constructors and read from attributes.
\<close>

datatype pyarg =
    ArgNone
  | ArgStr string
  | ArgInt int
  | ArgTime datetime
  | ArgStatus SessionStatus
  | ArgList "pyarg list"
  | ArgDict "(string \<times> pyarg) list"

text \<open>
  The dataclass \<open>Session\<close> of types.py, which session\_manager.py imports. Its fields, in
  the order of the declaration, are \<open>id\<close>, \<open>whatsapp_user\<close>, \<open>vscode_workspace\<close>,
  \<open>status\<close>, \<open>created_at\<close>, \<open>last_activity\<close>, \<open>context\<close>, \<open>active_suggestions\<close> and
  \<open>metadata\<close>; none has a default. (\<open>id'\<close> and \<open>context'\<close> stand for \<open>id\<close> and
  \<open>context\<close>.)
\<close>

record Session =
  id' :: string
  whatsapp_user :: string
  vscode_workspace :: "string option"
  status :: SessionStatus
  created_at :: datetime
  last_activity :: datetime
  context' :: pyarg
  active_suggestions :: "pyarg list"
  metadata :: "(string \<times> pyarg) list"

definition Session_fields :: "string list" where
  "Session_fields = [''id'', ''whatsapp_user'', ''vscode_workspace'', ''status'',
     ''created_at'', ''last_activity'', ''context'', ''active_suggestions'', ''metadata'']"

text \<open>
  The \<open>__init__\<close> that \<open>@dataclass\<close> generates, called with keyword arguments: a keyword
  that is not a field raises TypeError, and so does a field that is not given. The last
  case is a value that does not fit the annotated type of its field: Python would store it;
  here it is a TypeError, and no call in the repository reaches it.
\<close>

definition Session_new :: "(string \<times> pyarg) list \<Rightarrow> exn + Session" where
  "Session_new kwargs =
     (case filter (\<lambda>k. k \<notin> set Session_fields) (map fst kwargs) of
        k # ks \<Rightarrow> Inl (TypeError (''unexpected keyword argument '' @ k))
      | [] \<Rightarrow>
         (case filter (\<lambda>f. f \<notin> set (map fst kwargs)) Session_fields of
            f # fs \<Rightarrow> Inl (TypeError (''missing required argument '' @ f))
          | [] \<Rightarrow>
             (case map (\<lambda>f. map_of kwargs f) Session_fields of
                [Some (ArgStr i), Some (ArgStr u), Some w, Some (ArgStatus s),
                 Some (ArgTime c), Some (ArgTime l), Some x, Some (ArgList a), Some (ArgDict m)] \<Rightarrow>
                  (case w of
                     ArgNone \<Rightarrow>
                       Inr \<lparr>id' = i, whatsapp_user = u, vscode_workspace = None, status = s,
                            created_at = c, last_activity = l, context' = x,
                            active_suggestions = a, metadata = m\<rparr>
                   | ArgStr p \<Rightarrow>
                       Inr \<lparr>id' = i, whatsapp_user = u, vscode_workspace = Some p, status = s,
                            created_at = c, last_activity = l, context' = x,
                            active_suggestions = a, metadata = m\<rparr>
                   | _ \<Rightarrow> Inl (TypeError ''field value outside the model''))
              | _ \<Rightarrow> Inl (TypeError ''field value outside the model''))))"

text \<open>Reading an attribute of a \<open>Session\<close> object.\<close>

definition Session_getattr :: "Session \<Rightarrow> string \<Rightarrow> exn + pyarg" where
  "Session_getattr s a =
     (if a = ''id'' then Inr (ArgStr (id' s))
      else if a = ''whatsapp_user'' then Inr (ArgStr (whatsapp_user s))
      else if a = ''vscode_workspace''
        then Inr (case vscode_workspace s of None \<Rightarrow> ArgNone | Some p \<Rightarrow> ArgStr p)
      else if a = ''status'' then Inr (ArgStatus (status s))
      else if a = ''created_at'' then Inr (ArgTime (created_at s))
      else if a = ''last_activity'' then Inr (ArgTime (last_activity s))
      else if a = ''context'' then Inr (context' s)
      else if a = ''active_suggestions'' then Inr (ArgList (active_suggestions s))
      else if a = ''metadata'' then Inr (ArgDict (metadata s))
      else Inl (AttributeError a))"

definition opt_arg :: "string option \<Rightarrow> pyarg" where
  "opt_arg w = (case w of None \<Rightarrow> ArgNone | Some p \<Rightarrow> ArgStr p)"

text \<open>
  The function \<open>create_session\<close> of types.py (not the method of the session managers): it
  names the fields as the dataclass declares them.
\<close>

definition types_create_session ::
  "string \<Rightarrow> datetime \<Rightarrow> string \<Rightarrow> string option \<Rightarrow> exn + Session" where
  "types_create_session new_id now user workspace =
     Session_new [(''id'', ArgStr new_id), (''whatsapp_user'', ArgStr user),
       (''vscode_workspace'', opt_arg workspace), (''status'', ArgStatus ACTIVE),
       (''created_at'', ArgTime now), (''last_activity'', ArgTime now),
       (''context'', ArgNone), (''active_suggestions'', ArgList []), (''metadata'', ArgDict [])]"

text \<open>
  The keyword arguments with which both session managers call \<open>Session(...)\<close>.
\<close>

definition manager_kwargs ::
  "string \<Rightarrow> string \<Rightarrow> pyarg \<Rightarrow> SessionStatus \<Rightarrow> datetime \<Rightarrow> datetime \<Rightarrow> int \<Rightarrow>
   pyarg \<Rightarrow> (string \<times> pyarg) list" where
  "manager_kwargs session_id user workspace st created_time activity_time n commands =
     [(''session_id'', ArgStr session_id), (''whatsapp_user'', ArgStr user),
      (''workspace'', workspace), (''status'', ArgStatus st),
      (''created_at'', ArgTime created_time), (''last_activity'', ArgTime activity_time),
      (''suggestions_count'', ArgInt n), (''commands_executed'', commands)]"

section \<open>Process-local session store (session\_manager.py, InMemorySessionManager)\<close>

record InMemorySessionManager =
  sessions :: "(string \<times> Session) list"
  user_sessions :: "(string \<times> string) list"
  session_ttl :: int

definition InMemorySessionManager_init :: InMemorySessionManager where
  "InMemorySessionManager_init = \<lparr>sessions = [], user_sessions = [], session_ttl = 24 * 60 * 60\<rparr>"

text \<open>
  \<open>create_session\<close>. \<open>new_id\<close> is \<open>str(uuid4())\<close> and \<open>now1\<close>, \<open>now2\<close> are the two
  clock readings; all three are evaluated before \<open>Session(...)\<close> is called. After the
  call the code reads \<open>session.session_id\<close>.
\<close>

definition InMemory_create_session ::
  "InMemorySessionManager \<Rightarrow> string \<Rightarrow> datetime \<Rightarrow> datetime \<Rightarrow> string \<Rightarrow> string option \<Rightarrow>
   exn + (Session \<times> InMemorySessionManager)" where
  "InMemory_create_session mgr new_id now1 now2 user workspace =
     (case (case dict_get (user_sessions mgr) user of
              None \<Rightarrow> None
            | Some existing_session_id \<Rightarrow>
                (case dict_get (sessions mgr) existing_session_id of
                   None \<Rightarrow> None
                 | Some existing_session \<Rightarrow>
                     if status existing_session = ACTIVE then Some existing_session else None)) of
        Some existing_session \<Rightarrow> Inr (existing_session, mgr)
      | None \<Rightarrow>
         (case Session_new (manager_kwargs new_id user (opt_arg workspace) ACTIVE
                  now1 now2 0 (ArgList [])) of
            Inl e \<Rightarrow> Inl e
          | Inr session \<Rightarrow>
             (case Session_getattr session ''session_id'' of
                Inl e \<Rightarrow> Inl e
              | Inr (ArgStr sid) \<Rightarrow>
                  Inr (session,
                       mgr\<lparr>sessions := dict_set (sessions mgr) sid session,
                           user_sessions := dict_set (user_sessions mgr) user sid\<rparr>)
              | Inr other \<Rightarrow> Inl (TypeError ''attribute value outside the model''))))"

definition InMemory_get_session :: "InMemorySessionManager \<Rightarrow> string \<Rightarrow> Session option" where
  "InMemory_get_session mgr session_id = dict_get (sessions mgr) session_id"

text \<open>\<open>if session_id:\<close> is false for the empty string too.\<close>

definition InMemory_get_user_session ::
  "InMemorySessionManager \<Rightarrow> string \<Rightarrow> Session option" where
  "InMemory_get_user_session mgr user_id =
     (case dict_get (user_sessions mgr) user_id of
        None \<Rightarrow> None
      | Some session_id \<Rightarrow> if session_id \<noteq> [] then dict_get (sessions mgr) session_id else None)"

text \<open>
  \<open>end_session\<close>. The right-hand side \<open>SessionStatus.ENDED\<close> is evaluated before anything
  is assigned.
\<close>

definition InMemory_end_session ::
  "InMemorySessionManager \<Rightarrow> datetime \<Rightarrow> string \<Rightarrow> exn + InMemorySessionManager" where
  "InMemory_end_session mgr now session_id =
     (case dict_get (sessions mgr) session_id of
        None \<Rightarrow> Inr mgr
      | Some session \<Rightarrow>
         (case SessionStatus_member ''ENDED'' of
            Inl e \<Rightarrow> Inl e
          | Inr ended \<Rightarrow>
              let session' = session\<lparr>status := ended, last_activity := now\<rparr>;
                  mgr' = mgr\<lparr>sessions := dict_set (sessions mgr) session_id session'\<rparr>
              in Inr (case dict_get (user_sessions mgr') (whatsapp_user session') of
                        Some sid \<Rightarrow>
                          mgr'\<lparr>user_sessions := dict_del (user_sessions mgr') (whatsapp_user session')\<rparr>
                      | None \<Rightarrow> mgr')))"

text \<open>
  \<open>cleanup_expired_sessions\<close>: \<open>now\<close> is the clock reading for the cutoff and
  \<open>now_end sid\<close> the one taken while ending session \<open>sid\<close>.
\<close>

fun end_sessions ::
  "InMemorySessionManager \<Rightarrow> (string \<Rightarrow> datetime) \<Rightarrow> string list \<Rightarrow> exn + InMemorySessionManager" where
  "end_sessions mgr now_end [] = Inr mgr"
| "end_sessions mgr now_end (session_id # rest) =
     (case InMemory_end_session mgr (now_end session_id) session_id of
        Inl e \<Rightarrow> Inl e
      | Inr mgr' \<Rightarrow> end_sessions mgr' now_end rest)"

definition InMemory_cleanup_expired_sessions ::
  "InMemorySessionManager \<Rightarrow> datetime \<Rightarrow> (string \<Rightarrow> datetime) \<Rightarrow>
   exn + (nat \<times> InMemorySessionManager)" where
  "InMemory_cleanup_expired_sessions mgr now now_end =
     (case timedelta_seconds (session_ttl mgr) of
        Inl e \<Rightarrow> Inl e
      | Inr d \<Rightarrow>
         (case datetime_add now (- d) of
            Inl e \<Rightarrow> Inl e
          | Inr cutoff_time \<Rightarrow>
              let expired_sessions =
                    map fst (filter (\<lambda>kv. last_activity (snd kv) < cutoff_time) (sessions mgr))
              in case end_sessions mgr now_end expired_sessions of
                   Inl e \<Rightarrow> Inl e
                 | Inr mgr' \<Rightarrow> Inr (length expired_sessions, mgr')))"

section \<open>Durable session store (session\_manager.py, RedisSessionManager)\<close>

text \<open>
  Library functions that the durable store calls, as parameters: \<open>None\<close> from
  \<open>fromisoformat\<close>, \<open>int_of_str\<close> and \<open>loads_arg\<close> stands for the ValueError (or
  JSONDecodeError) that \<open>datetime.fromisoformat\<close>, \<open>int\<close> and \<open>json.loads\<close> raise.
\<close>

record pylib =
  fromisoformat :: "string \<Rightarrow> datetime option"
  isoformat :: "datetime \<Rightarrow> string"
  int_of_str :: "string \<Rightarrow> int option"
  str_of_int :: "int \<Rightarrow> string"
  loads_arg :: "string \<Rightarrow> pyarg option"
  dumps_arg :: "pyarg \<Rightarrow> string"

record 'r RedisSessionManager =
  redis_client :: "'r option"
  session_ttl :: int

definition RedisSessionManager_init :: "'r RedisSessionManager" where
  "RedisSessionManager_init = \<lparr>redis_client = None, session_ttl = 24 * 60 * 60\<rparr>"

text \<open>\<open>except (KeyError, ValueError)\<close>; JSONDecodeError is a ValueError.\<close>

fun is_key_or_value_error :: "exn \<Rightarrow> bool" where
  "is_key_or_value_error (KeyError m) = True"
| "is_key_or_value_error (ValueError m) = True"
| "is_key_or_value_error (JSONDecodeError m) = True"
| "is_key_or_value_error e = False"

text \<open>
  The keyword arguments of the \<open>Session(...)\<close> call in \<open>get_session\<close>, evaluated from the
  stored hash; \<open>None\<close> when a subscript raises KeyError or a conversion raises ValueError.
\<close>

definition session_kwargs :: "pylib \<Rightarrow> (string \<times> string) list \<Rightarrow> (string \<times> pyarg) list option" where
  "session_kwargs lib session_data =
     (case (dict_get session_data ''session_id'',
            dict_get session_data ''whatsapp_user'',
            dict_get session_data ''workspace'',
            Option.bind (dict_get session_data ''status'') SessionStatus_of_value,
            Option.bind (dict_get session_data ''created_at'') (fromisoformat lib),
            Option.bind (dict_get session_data ''last_activity'') (fromisoformat lib),
            Option.bind (dict_get session_data ''suggestions_count'') (int_of_str lib),
            Option.bind (dict_get session_data ''commands_executed'') (loads_arg lib)) of
        (Some sid, Some u, Some w, Some st, Some c, Some l, Some n, Some cmds) \<Rightarrow>
          Some (manager_kwargs sid u (if w = [] then ArgNone else ArgStr w) st c l n cmds)
      | _ \<Rightarrow> None)"

text \<open>
  The methods after their connection check, on the backend state. Each method of the class
  repeats the check; it cannot fail once the outer method has passed it.
\<close>

definition get_session_on ::
  "'r redis \<Rightarrow> pylib \<Rightarrow> string \<Rightarrow> 'r \<Rightarrow> (exn + Session option) \<times> 'r" where
  "get_session_on cl lib session_id r =
     (case r_hgetall cl (''session:'' @ session_id) r of
        (Inl e, r') \<Rightarrow> (Inl e, r')
      | (Inr session_data, r') \<Rightarrow>
          (if session_data = [] then Inr None
           else case session_kwargs lib session_data of
                  None \<Rightarrow> Inr None
                | Some kwargs \<Rightarrow>
                    (case Session_new kwargs of
                       Inl e \<Rightarrow> if is_key_or_value_error e then Inr None else Inl e
                     | Inr s \<Rightarrow> Inr (Some s)),
           r'))"

definition get_user_session_on ::
  "'r redis \<Rightarrow> pylib \<Rightarrow> string \<Rightarrow> 'r \<Rightarrow> (exn + Session option) \<times> 'r" where
  "get_user_session_on cl lib user_id r =
     (case r_get cl (''user_session:'' @ user_id) r of
        (Inl e, r') \<Rightarrow> (Inl e, r')
      | (Inr None, r') \<Rightarrow> (Inr None, r')
      | (Inr (Some session_id), r') \<Rightarrow>
          if session_id = [] then (Inr None, r') else get_session_on cl lib session_id r')"

text \<open>Attribute reads in the order of the source; the first that fails raises.\<close>

fun getattrs :: "Session \<Rightarrow> string list \<Rightarrow> exn + pyarg list" where
  "getattrs s [] = Inr []"
| "getattrs s (a # as) =
     (case Session_getattr s a of
        Inl e \<Rightarrow> Inl e
      | Inr v \<Rightarrow> (case getattrs s as of Inl e \<Rightarrow> Inl e | Inr vs \<Rightarrow> Inr (v # vs)))"

text \<open>
  The part of \<open>create_session\<close> after the \<open>Session(...)\<close> call: the keys and the stored
  mapping are built from attributes of the new object, then the pipeline runs.
\<close>

definition store_session_on ::
  "'r redis \<Rightarrow> pylib \<Rightarrow> int \<Rightarrow> Session \<Rightarrow> string \<Rightarrow> 'r \<Rightarrow> (exn + Session) \<times> 'r" where
  "store_session_on cl lib ttl session user r =
     (case getattrs session [''session_id'', ''session_id'', ''whatsapp_user'', ''workspace'',
              ''status'', ''created_at'', ''last_activity'', ''suggestions_count'',
              ''commands_executed'', ''session_id'', ''session_id''] of
        Inl e \<Rightarrow> (Inl e, r)
      | Inr [ArgStr sid, x1, ArgStr u, w, ArgStatus st, ArgTime c, ArgTime l, ArgInt n, cmds,
             x2, x3] \<Rightarrow>
          let session_key = ''session:'' @ sid;
              user_session_key = ''user_session:'' @ user;
              session_data =
                [(''session_id'', sid), (''whatsapp_user'', u),
                 (''workspace'', case w of ArgStr p \<Rightarrow> p | _ \<Rightarrow> []),
                 (''status'', SessionStatus_value st),
                 (''created_at'', isoformat lib c), (''last_activity'', isoformat lib l),
                 (''suggestions_count'', str_of_int lib n),
                 (''commands_executed'', dumps_arg lib cmds)]
          in (case r_execute cl [PHSet session_key session_data, PExpire session_key ttl,
                    PSetEx user_session_key sid ttl, PSAdd ''active_sessions'' sid] r of
                (Inl e, r') \<Rightarrow> (Inl e, r')
              | (Inr u, r') \<Rightarrow> (Inr session, r'))
      | Inr other \<Rightarrow> (Inl (TypeError ''attribute value outside the model''), r))"

definition create_session_on ::
  "'r redis \<Rightarrow> pylib \<Rightarrow> int \<Rightarrow> string \<Rightarrow> datetime \<Rightarrow> datetime \<Rightarrow> string \<Rightarrow>
   string option \<Rightarrow> 'r \<Rightarrow> (exn + Session) \<times> 'r" where
  "create_session_on cl lib ttl new_id now1 now2 user workspace r =
     (case get_user_session_on cl lib user r of
        (Inl e, r1) \<Rightarrow> (Inl e, r1)
      | (Inr existing, r1) \<Rightarrow>
         (case (case existing of
                  None \<Rightarrow> None
                | Some s \<Rightarrow> if status s = ACTIVE then Some s else None) of
            Some existing_session \<Rightarrow>
              (case Session_getattr existing_session ''session_id'' of
                 Inl e \<Rightarrow> (Inl e, r1)
               | Inr a \<Rightarrow> (Inr existing_session, r1))
          | None \<Rightarrow>
              (case Session_new (manager_kwargs new_id user (opt_arg workspace) ACTIVE
                       now1 now2 0 (ArgList [])) of
                 Inl e \<Rightarrow> (Inl e, r1)
               | Inr session \<Rightarrow> store_session_on cl lib ttl session user r1)))"

definition end_session_on ::
  "'r redis \<Rightarrow> pylib \<Rightarrow> datetime \<Rightarrow> string \<Rightarrow> 'r \<Rightarrow> (exn + unit) \<times> 'r" where
  "end_session_on cl lib now session_id r =
     (case get_session_on cl lib session_id r of
        (Inl e, r1) \<Rightarrow> (Inl e, r1)
      | (Inr None, r1) \<Rightarrow> (Inr (), r1)
      | (Inr (Some session), r1) \<Rightarrow>
         (case SessionStatus_member ''ENDED'' of
            Inl e \<Rightarrow> (Inl e, r1)
          | Inr ended \<Rightarrow>
              let session' = session\<lparr>status := ended, last_activity := now\<rparr>;
                  session_key = ''session:'' @ session_id;
                  user_session_key = ''user_session:'' @ whatsapp_user session'
              in (case r_execute cl
                        [PHSetField session_key ''status'' (SessionStatus_value (status session')),
                         PHSetField session_key ''last_activity''
                           (isoformat lib (last_activity session')),
                         PSRem ''active_sessions'' session_id,
                         PDelete user_session_key] r1 of
                    (Inl e, r2) \<Rightarrow> (Inl e, r2)
                  | (Inr u, r2) \<Rightarrow> (Inr (), r2))))"

fun cleanup_loop_on ::
  "'r redis \<Rightarrow> pylib \<Rightarrow> datetime \<Rightarrow> (string \<Rightarrow> datetime) \<Rightarrow> int \<Rightarrow> string list \<Rightarrow> 'r \<Rightarrow>
   (exn + int) \<times> 'r" where
  "cleanup_loop_on cl lib cutoff_time now_end cleaned_count [] r = (Inr cleaned_count, r)"
| "cleanup_loop_on cl lib cutoff_time now_end cleaned_count (session_id # rest) r =
     (case get_session_on cl lib session_id r of
        (Inl e, r1) \<Rightarrow> (Inl e, r1)
      | (Inr None, r1) \<Rightarrow>
         (case r_srem cl ''active_sessions'' session_id r1 of
            (Inl e, r2) \<Rightarrow> (Inl e, r2)
          | (Inr u, r2) \<Rightarrow>
              cleanup_loop_on cl lib cutoff_time now_end (cleaned_count + 1) rest r2)
      | (Inr (Some session), r1) \<Rightarrow>
          if last_activity session < cutoff_time then
            (case Session_getattr session ''session_id'' of
               Inl e \<Rightarrow> (Inl e, r1)
             | Inr (ArgStr sid) \<Rightarrow>
                 (case end_session_on cl lib (now_end sid) sid r1 of
                    (Inl e, r2) \<Rightarrow> (Inl e, r2)
                  | (Inr u, r2) \<Rightarrow>
                      cleanup_loop_on cl lib cutoff_time now_end (cleaned_count + 1) rest r2)
             | Inr other \<Rightarrow> (Inl (TypeError ''attribute value outside the model''), r1))
          else cleanup_loop_on cl lib cutoff_time now_end cleaned_count rest r1)"

definition cleanup_expired_sessions_on ::
  "'r redis \<Rightarrow> pylib \<Rightarrow> int \<Rightarrow> datetime \<Rightarrow> (string \<Rightarrow> datetime) \<Rightarrow> 'r \<Rightarrow> (exn + int) \<times> 'r" where
  "cleanup_expired_sessions_on cl lib ttl now now_end r =
     (case timedelta_seconds ttl of
        Inl e \<Rightarrow> (Inl e, r)
      | Inr d \<Rightarrow>
         (case datetime_add now (- d) of
            Inl e \<Rightarrow> (Inl e, r)
          | Inr cutoff_time \<Rightarrow>
             (case r_smembers cl ''active_sessions'' r of
                (Inl e, r1) \<Rightarrow> (Inl e, r1)
              | (Inr active_sessions, r1) \<Rightarrow>
                  cleanup_loop_on cl lib cutoff_time now_end 0 active_sessions r1)))"

text \<open>
  The methods: the connection check, then the body on the backend.
\<close>

definition when_connected ::
  "'r RedisSessionManager \<Rightarrow> ('r \<Rightarrow> (exn + 'a) \<times> 'r) \<Rightarrow> (exn + 'a) \<times> 'r RedisSessionManager" where
  "when_connected mgr body =
     (case redis_client mgr of
        None \<Rightarrow> (Inl not_connected, mgr)
      | Some r \<Rightarrow> (case body r of (res, r') \<Rightarrow> (res, mgr\<lparr>redis_client := Some r'\<rparr>)))"

definition RedisSession_get_session ::
  "'r redis \<Rightarrow> pylib \<Rightarrow> 'r RedisSessionManager \<Rightarrow> string \<Rightarrow>
   (exn + Session option) \<times> 'r RedisSessionManager" where
  "RedisSession_get_session cl lib mgr session_id =
     when_connected mgr (get_session_on cl lib session_id)"

definition RedisSession_get_user_session ::
  "'r redis \<Rightarrow> pylib \<Rightarrow> 'r RedisSessionManager \<Rightarrow> string \<Rightarrow>
   (exn + Session option) \<times> 'r RedisSessionManager" where
  "RedisSession_get_user_session cl lib mgr user_id =
     when_connected mgr (get_user_session_on cl lib user_id)"

definition RedisSession_create_session ::
  "'r redis \<Rightarrow> pylib \<Rightarrow> 'r RedisSessionManager \<Rightarrow> string \<Rightarrow> datetime \<Rightarrow> datetime \<Rightarrow>
   string \<Rightarrow> string option \<Rightarrow> (exn + Session) \<times> 'r RedisSessionManager" where
  "RedisSession_create_session cl lib mgr new_id now1 now2 user workspace =
     when_connected mgr
       (create_session_on cl lib (session_ttl mgr) new_id now1 now2 user workspace)"

definition RedisSession_end_session ::
  "'r redis \<Rightarrow> pylib \<Rightarrow> 'r RedisSessionManager \<Rightarrow> datetime \<Rightarrow> string \<Rightarrow>
   (exn + unit) \<times> 'r RedisSessionManager" where
  "RedisSession_end_session cl lib mgr now session_id =
     when_connected mgr (end_session_on cl lib now session_id)"

definition RedisSession_cleanup_expired_sessions ::
  "'r redis \<Rightarrow> pylib \<Rightarrow> 'r RedisSessionManager \<Rightarrow> datetime \<Rightarrow> (string \<Rightarrow> datetime) \<Rightarrow>
   (exn + int) \<times> 'r RedisSessionManager" where
  "RedisSession_cleanup_expired_sessions cl lib mgr now now_end =
     when_connected mgr (cleanup_expired_sessions_on cl lib (session_ttl mgr) now now_end)"

definition RedisSession_get_active_session_count ::
  "'r redis \<Rightarrow> 'r RedisSessionManager \<Rightarrow> (exn + int) \<times> 'r RedisSessionManager" where
  "RedisSession_get_active_session_count cl mgr =
     when_connected mgr (r_scard cl ''active_sessions'')"

section \<open>Concrete backends and inputs\<close>

text \<open>
  A backend that keeps strings, hashes and sets and never raises; expiry of keys is left
  out. It serves to run the durable stores on explicit contents.
\<close>

record redis_db =
  strings :: "(string \<times> string) list"
  hashes :: "(string \<times> (string \<times> string) list) list"
  members :: "(string \<times> string list) list"

definition hash_of :: "redis_db \<Rightarrow> string \<Rightarrow> (string \<times> string) list" where
  "hash_of db k = (case dict_get (hashes db) k of None \<Rightarrow> [] | Some h \<Rightarrow> h)"

definition members_of :: "redis_db \<Rightarrow> string \<Rightarrow> string list" where
  "members_of db k = (case dict_get (members db) k of None \<Rightarrow> [] | Some ms \<Rightarrow> ms)"

definition del_key :: "string \<Rightarrow> redis_db \<Rightarrow> redis_db" where
  "del_key k db = db\<lparr>strings := dict_del (strings db) k, hashes := dict_del (hashes db) k,
                     members := dict_del (members db) k\<rparr>"

definition has_key :: "redis_db \<Rightarrow> string \<Rightarrow> bool" where
  "has_key db k \<longleftrightarrow>
     k \<in> set (map fst (strings db) @ map fst (hashes db) @ map fst (members db))"

fun exec_cmd :: "pipe_cmd \<Rightarrow> redis_db \<Rightarrow> redis_db" where
  "exec_cmd (PHSet k m) db = db\<lparr>hashes := dict_set (hashes db) k (dict_update (hash_of db k) m)\<rparr>"
| "exec_cmd (PHSetField k f v) db =
     db\<lparr>hashes := dict_set (hashes db) k (dict_set (hash_of db k) f v)\<rparr>"
| "exec_cmd (PExpire k t) db = db"
| "exec_cmd (PSetEx k v t) db = db\<lparr>strings := dict_set (strings db) k v\<rparr>"
| "exec_cmd (PSAdd k m) db =
     db\<lparr>members := dict_set (members db) k
            (if m \<in> set (members_of db k) then members_of db k else members_of db k @ [m])\<rparr>"
| "exec_cmd (PSRem k m) db = db\<lparr>members := dict_set (members db) k (removeAll m (members_of db k))\<rparr>"
| "exec_cmd (PDelete k) db = del_key k db"

definition plain_redis :: "redis_db redis" where
  "plain_redis =
     \<lparr>r_get = (\<lambda>k db. (Inr (dict_get (strings db) k), db)),
      r_setex = (\<lambda>k t v db. (Inr (), exec_cmd (PSetEx k v t) db)),
      r_delete = (\<lambda>ks db. (Inr (int (length (filter (has_key db) ks))), fold del_key ks db)),
      r_exists = (\<lambda>k db. (Inr (if has_key db k then 1 else 0), db)),
      r_keys = (\<lambda>p db. (Inr (filter (\<lambda>k. butlast p = take (length p - 1) k)
                               (map fst (strings db) @ map fst (hashes db) @ map fst (members db))),
                        db)),
      r_hgetall = (\<lambda>k db. (Inr (hash_of db k), db)),
      r_hset = (\<lambda>k m db. (Inr (), exec_cmd (PHSet k m) db)),
      r_expire = (\<lambda>k t db. (Inr (), db)),
      r_srem = (\<lambda>k m db. (Inr (), exec_cmd (PSRem k m) db)),
      r_smembers = (\<lambda>k db. (Inr (members_of db k), db)),
      r_scard = (\<lambda>k db. (Inr (int (length (members_of db k))), db)),
      r_execute = (\<lambda>cs db. (Inr (), fold exec_cmd cs db))\<rparr>"

definition empty_db :: redis_db where
  "empty_db = \<lparr>strings = [], hashes = [], members = []\<rparr>"

text \<open>
  The library functions on the few strings that the inputs below use; 2024-01-01T00:00:00
  is 63839664000000000 microseconds after \<open>datetime.min\<close>.
\<close>

definition lib0 :: pylib where
  "lib0 =
     \<lparr>fromisoformat = (\<lambda>s. if s = ''2024-01-01T00:00:00'' then Some 63839664000000000 else None),
      isoformat = (\<lambda>t. if t = 63839664000000000 then ''2024-01-01T00:00:00'' else []),
      int_of_str = (\<lambda>s. if s = ''0'' then Some 0 else if s = ''5'' then Some 5 else None),
      str_of_int = (\<lambda>n. if n = 0 then ''0'' else if n = 5 then ''5'' else []),
      loads_arg = (\<lambda>s. if s = ''[]'' then Some (ArgList []) else None),
      dumps_arg = (\<lambda>a. if a = ArgList [] then ''[]'' else [])\<rparr>"

text \<open>
  The stored hash of the repository's test \<open>test_get_session_redis\<close>, and a backend that
  holds it with its index entries.
\<close>

definition test_session_data :: "(string \<times> string) list" where
  "test_session_data =
     [(''session_id'', ''test_session''), (''whatsapp_user'', ''test_user''),
      (''workspace'', ''/test''), (''status'', ''active''),
      (''created_at'', ''2024-01-01T00:00:00''), (''last_activity'', ''2024-01-01T00:00:00''),
      (''suggestions_count'', ''5''), (''commands_executed'', ''[]'')]"

definition test_db :: redis_db where
  "test_db = \<lparr>strings = [(''user_session:test_user'', ''test_session'')],
              hashes = [(''session:test_session'', test_session_data)],
              members = [(''active_sessions'', [''test_session''])]\<rparr>"

definition stale_db :: redis_db where
  "stale_db = \<lparr>strings = [], hashes = [], members = [(''active_sessions'', [''gone''])]\<rparr>"

definition connected :: "'r \<Rightarrow> 'r RedisSessionManager" where
  "connected r = \<lparr>redis_client = Some r, session_ttl = 24 * 60 * 60\<rparr>"

text \<open>
  A \<open>Session\<close> object as \<open>create_session("u1")\<close> of types.py builds it, and a
  process-local store that holds it for its user.
\<close>

definition session_s1 :: Session where
  "session_s1 = \<lparr>id' = ''s1'', whatsapp_user = ''u1'', vscode_workspace = None, status = ACTIVE,
     created_at = 0, last_activity = 0, context' = ArgNone, active_suggestions = [],
     metadata = []\<rparr>"

definition mgr_s1 :: InMemorySessionManager where
  "mgr_s1 = \<lparr>sessions = [(''s1'', session_s1)], user_sessions = [(''u1'', ''s1'')],
             session_ttl = 24 * 60 * 60\<rparr>"

text \<open>
  The Active session that \<open>create_session\<close> of the process-local store finds for a
  user through the index.
\<close>

definition active_session_of :: "InMemorySessionManager \<Rightarrow> string \<Rightarrow> Session option" where
  "active_session_of mgr user =
     (case dict_get (user_sessions mgr) user of
        None \<Rightarrow> None
      | Some sid \<Rightarrow>
          (case dict_get (sessions mgr) sid of
             None \<Rightarrow> None
           | Some s \<Rightarrow> if status s = ACTIVE then Some s else None))"

definition session_id_TypeError :: exn where
  "session_id_TypeError = TypeError ''unexpected keyword argument session_id''"

text \<open>
  A backend whose \<open>keys\<close> answers and whose other commands raise, a connected cache
  service, and stand-ins for the json functions.
\<close>

definition delete_fails_redis :: "unit redis" where
  "delete_fails_redis = broken_redis\<lparr>r_keys := (\<lambda>p r. (Inr [''mcp_cache:default:k''], r))\<rparr>"

definition cache_connected :: "'r \<Rightarrow> 'r RedisCacheService" where
  "cache_connected r =
     \<lparr>RedisCacheService.redis_client = Some r, RedisCacheService.default_ttl = 3600,
      key_prefix = ''mcp_cache:''\<rparr>"

definition json0 :: "(nat, unit) json_lib" where
  "json0 = \<lparr>is_simple = (\<lambda>v. True), dumps = (\<lambda>tag v. Inr ''{}''),
            loads = (\<lambda>s. Inl (JSONDecodeError s)), data_get_value = (\<lambda>d. Inr PyNone),
            of_str = length\<rparr>"

section \<open>Properties of the health aggregation\<close>






section \<open>Properties of the process-local cache store\<close>

lemma dict_get_set: "dict_get (dict_set d k v) k' = (if k' = k then Some v else dict_get d k')"
  by (induction d) (auto simp: dict_get_def)

lemma dict_get_del: "dict_get (dict_del d k) k' = (if k' = k then None else dict_get d k')"
  by (induction d) (auto simp: dict_get_def dict_del_def)

lemma make_key_inj: "InMemory_make_key k ns = InMemory_make_key k' ns \<longleftrightarrow> k = k'"
  by (simp add: InMemory_make_key_def)

lemma InMemory_set_Inr:
  assumes "InMemory_set svc now1 now2 key v ttl ns = Inr (ok, svc')"
  shows "ok = True"
    and "svc' = svc\<lparr>cache := dict_set (cache svc) (InMemory_make_key key ns)
            \<lparr>val = v, expires_at = Some (now1 + ttl_or ttl (InMemoryCacheService.default_ttl svc) * 1000000),
             created_at = now2\<rparr>\<rparr>"
  using assms
  by (auto simp: InMemory_set_def Let_def timedelta_seconds_def datetime_add_def
      split: sum.splits if_splits)

text \<open>
  C5, as the code has it. When \<open>set\<close> succeeds it returns \<open>True\<close> and stores the value
  with \<open>expires_at\<close> equal to the first clock reading of \<open>set\<close> plus the effective ttl in
  seconds, where the effective ttl is the given ttl unless that is \<open>None\<close> or \<open>0\<close>, in
  which case it is \<open>default_ttl\<close> (3600 in a fresh service); \<open>created_at\<close> is the second
  clock reading. A \<open>get\<close> at any time up to and including \<open>expires_at\<close> returns the value
  and leaves the store as it is; a \<open>get\<close> after \<open>expires_at\<close> returns \<open>None\<close> and removes
  the entry, so that \<open>exists\<close> is false afterwards.
\<close>

theorem set_then_get:
  assumes "InMemory_set svc now1 now2 key v ttl ns = Inr (ok, svc')"
  shows "ok
    \<and> (\<exists>e. dict_get (cache svc') (InMemory_make_key key ns) = Some e
          \<and> val e = v \<and> cache_entry.created_at e = now2
          \<and> expires_at e = Some (now1 + ttl_or ttl (InMemoryCacheService.default_ttl svc) * 1000000))
    \<and> (\<forall>now. now \<le> now1 + ttl_or ttl (InMemoryCacheService.default_ttl svc) * 1000000 \<longrightarrow>
          InMemory_get svc' now key ns = (v, svc'))
    \<and> (\<forall>now. now1 + ttl_or ttl (InMemoryCacheService.default_ttl svc) * 1000000 < now \<longrightarrow>
          fst (InMemory_get svc' now key ns) = PyNone
          \<and> dict_get (cache (snd (InMemory_get svc' now key ns))) (InMemory_make_key key ns) = None
          \<and> (\<forall>now'. fst (InMemory_exists (snd (InMemory_get svc' now key ns)) now' key ns) = False))
    \<and> ttl_or None (InMemoryCacheService.default_ttl (InMemoryCacheService_init :: 'a InMemoryCacheService)) = 3600
    \<and> ttl_or (Some 0) (InMemoryCacheService.default_ttl svc) = InMemoryCacheService.default_ttl svc
    \<and> (\<forall>n. n \<noteq> 0 \<longrightarrow> ttl_or (Some n) (InMemoryCacheService.default_ttl svc) = n)"
  using InMemory_set_Inr[OF assms(1)]
  by (auto simp: InMemory_get_def InMemory_exists_def Let_def dict_get_set dict_get_del
      is_expired_def ttl_or_def InMemoryCacheService_init_def)

theorem set_then_get_witness:
  "InMemory_set InMemoryCacheService_init 5000000 5000001 ''k'' (PyVal (42::nat)) (Some 2) ''default''
     = Inr (True, \<lparr>cache = [(''default:k'',
           \<lparr>val = PyVal 42, expires_at = Some 7000000, created_at = 5000001\<rparr>)], default_ttl = 3600\<rparr>)
   \<and> InMemory_get \<lparr>cache = [(''default:k'',
           \<lparr>val = PyVal (42::nat), expires_at = Some 7000000, created_at = 5000001\<rparr>)], default_ttl = 3600\<rparr>
         7000000 ''k'' ''default''
     = (PyVal 42, \<lparr>cache = [(''default:k'',
           \<lparr>val = PyVal 42, expires_at = Some 7000000, created_at = 5000001\<rparr>)], default_ttl = 3600\<rparr>)
   \<and> fst (InMemory_get \<lparr>cache = [(''default:k'',
           \<lparr>val = PyVal (42::nat), expires_at = Some 7000000, created_at = 5000001\<rparr>)], default_ttl = 3600\<rparr>
         7000001 ''k'' ''default'') = PyNone"
proof -
  have s: "InMemory_set InMemoryCacheService_init 5000000 5000001 ''k'' (PyVal (42::nat)) (Some 2) ''default''
     = Inr (True, \<lparr>cache = [(''default:k'',
           \<lparr>val = PyVal 42, expires_at = Some 7000000, created_at = 5000001\<rparr>)], default_ttl = 3600\<rparr>)"
    by (simp add: InMemory_set_def InMemoryCacheService_init_def InMemory_make_key_def ttl_or_def
        timedelta_seconds_def datetime_add_def datetime_max_def)
  have e: "(5000000::int) + ttl_or (Some 2) (InMemoryCacheService.default_ttl (InMemoryCacheService_init :: nat InMemoryCacheService)) * 1000000 = 7000000"
    by (simp add: ttl_or_def)
  note t = set_then_get [OF s, unfolded e]
  from t have g1: "\<forall>now\<le>7000000. InMemory_get \<lparr>cache = [(''default:k'',
           \<lparr>val = PyVal (42::nat), expires_at = Some 7000000, created_at = 5000001\<rparr>)], default_ttl = 3600\<rparr>
         now ''k'' ''default''
     = (PyVal 42, \<lparr>cache = [(''default:k'',
           \<lparr>val = PyVal 42, expires_at = Some 7000000, created_at = 5000001\<rparr>)], default_ttl = 3600\<rparr>)"
    by blast
  from t have g2: "\<forall>now>7000000. fst (InMemory_get \<lparr>cache = [(''default:k'',
           \<lparr>val = PyVal (42::nat), expires_at = Some 7000000, created_at = 5000001\<rparr>)], default_ttl = 3600\<rparr>
         now ''k'' ''default'') = PyNone"
    by blast
  show ?thesis
    using s g1 [rule_format, of 7000000] g2 [rule_format, of 7000001] by simp
qed

text \<open>
  C5 as stated fails for an explicit ttl of 0: \<open>expires_at\<close> is not \<open>created_at + ttl\<close>
  but one hour later, and a \<open>get\<close> one second after \<open>created_at + ttl\<close> still returns
  the value.
\<close>

theorem ttl_zero_counterexample:
  "InMemory_set InMemoryCacheService_init 0 0 ''k'' (PyVal (42::nat)) (Some 0) ''default''
     = Inr (True, \<lparr>cache = [(''default:k'',
           \<lparr>val = PyVal 42, expires_at = Some 3600000000, created_at = 0\<rparr>)], default_ttl = 3600\<rparr>)
   \<and> Some (3600000000::int) \<noteq> Some (0 + 0 * 1000000)
   \<and> fst (InMemory_get \<lparr>cache = [(''default:k'',
           \<lparr>val = PyVal (42::nat), expires_at = Some 3600000000, created_at = 0\<rparr>)], default_ttl = 3600\<rparr>
         1000000 ''k'' ''default'') = PyVal 42"
  by (simp add: InMemory_set_def InMemoryCacheService_init_def InMemory_make_key_def ttl_or_def
        timedelta_seconds_def datetime_add_def datetime_max_def InMemory_get_def dict_get_def is_expired_def)

section \<open>Properties of the cache manager\<close>

lemma map_fst_dict_set:
  "map fst (dict_set d k v) = (if k \<in> fst ` set d then map fst d else map fst d @ [k])"
  by (induction d k v rule: dict_set.induct) force+

lemma keys_dict_set: "fst ` set (dict_set d k v) = insert k (fst ` set d)"
proof -
  have "set (map fst (dict_set d k v)) = insert k (set (map fst d))"
    unfolding map_fst_dict_set by auto
  then show ?thesis by simp
qed

lemma vals_dict_set: "snd ` set (dict_set d k v) \<subseteq> insert v (snd ` set d)"
proof (induction d k v rule: dict_set.induct)
  case (1 k v)
  then show ?case by simp
next
  case (2 k' v' kvs k v)
  show ?case
  proof (cases "k' = k")
    case True
    then show ?thesis by auto
  next
    case False
    with 2 show ?thesis by auto
  qed
qed

lemma get_none_or_absent:
  assumes "none_or_absent svc key ns"
  shows "fst (InMemory_get svc now key ns) = PyNone"
    and "none_or_absent (snd (InMemory_get svc now key ns)) key ns"
  using assms
  by (auto simp: none_or_absent_def InMemory_get_def Let_def dict_get_del split: option.splits)

lemma get_other_none_or_absent:
  assumes "none_or_absent svc key ns"
  shows "none_or_absent (snd (InMemory_get svc now key' ns)) key ns"
  using assms
  by (auto simp: none_or_absent_def InMemory_get_def Let_def dict_get_del split: option.splits)

lemma set_none_or_absent:
  assumes "InMemory_set svc now1 now2 key PyNone ttl ns = Inr (ok, svc')"
  shows "none_or_absent svc' key ns"
  using InMemory_set_Inr(2)[OF assms]
  by (simp add: none_or_absent_def dict_get_set)

lemma get_or_set_miss:
  assumes "fst (InMemory_get (cache_service m) now_get key ns) = PyNone"
    and "get_or_set m now_get now1 now2 key f w ttl ns = (r, m', w')"
  shows "miss_count m' = miss_count m + 1" and "hit_count m' = hit_count m"
    and "w' = snd (f w)"
    and "r = fst (f w) \<or> (\<exists>e. r = Inl (OverflowError e))"
  using assms
  by (auto simp: get_or_set_def Let_def InMemory_set_def timedelta_seconds_def datetime_add_def
      split: prod.splits sum.splits if_splits)


lemma get_or_set_keeps_none:
  assumes "none_or_absent (cache_service m) key ns"
    and "fst (f w) = Inr PyNone"
    and "get_or_set m now_get now1 now2 key f w ttl ns = (r, m', w')"
  shows "none_or_absent (cache_service m') key ns"
proof -
  obtain c svc1 where g: "InMemory_get (cache_service m) now_get key ns = (c, svc1)"
    by (cases "InMemory_get (cache_service m) now_get key ns")
  from get_none_or_absent[OF assms(1), of now_get] g
  have c: "c = PyNone" and j1: "none_or_absent svc1 key ns" by simp_all
  obtain w1 where fw: "f w = (Inr PyNone, w1)" using assms(2) by (cases "f w") auto
  show ?thesis
  proof (cases "InMemory_set svc1 now1 now2 key PyNone ttl ns")
    case (Inl e)
    with assms(3) g c fw j1 show ?thesis
      by (auto simp: get_or_set_def Let_def)
  next
    case (Inr p)
    then obtain ok svc2 where s: "InMemory_set svc1 now1 now2 key PyNone ttl ns = Inr (ok, svc2)"
      by (cases p) auto
    with assms(3) g c fw set_none_or_absent[OF s] show ?thesis
      by (auto simp: get_or_set_def Let_def)
  qed
qed

lemma get_or_set_run_none:
  assumes "\<forall>w. fst (f w) = Inr PyNone"
  shows "none_or_absent (cache_service m) key ns \<Longrightarrow>
         get_or_set_run m w key f ns calls = (m', w') \<Longrightarrow>
         miss_count m' = miss_count m + length calls \<and> hit_count m' = hit_count m
         \<and> w' = ((\<lambda>a. snd (f a)) ^^ length calls) w \<and> none_or_absent (cache_service m') key ns"
proof (induction calls arbitrary: m w)
  case Nil
  then show ?case by simp
next
  case (Cons c calls)
  obtain now_get now1 now2 ttl where c: "c = (now_get, now1, now2, ttl)" by (cases c) auto
  obtain r m1 w1 where s: "get_or_set m now_get now1 now2 key f w ttl ns = (r, m1, w1)"
    by (cases "get_or_set m now_get now1 now2 key f w ttl ns") auto
  have miss: "fst (InMemory_get (cache_service m) now_get key ns) = PyNone"
    using get_none_or_absent(1)[OF Cons.prems(1)] .
  note st = get_or_set_miss[OF miss s]
  have j1: "none_or_absent (cache_service m1) key ns"
    using get_or_set_keeps_none[OF Cons.prems(1) _ s] assms by simp
  have run: "get_or_set_run m1 w1 key f ns calls = (m', w')"
    using Cons.prems(2) c s by simp
  have sw: "((\<lambda>a. snd (f a)) ^^ length calls) (snd (f w))
            = snd (f (((\<lambda>a. snd (f a)) ^^ length calls) w))"
    using funpow_swap1[of "\<lambda>a. snd (f a)" "length calls" w] by simp
  from Cons.IH[OF j1 run] st sw show ?case
    by simp
qed

lemma mget_loop_omits:
  "none_or_absent svc key ns \<Longrightarrow> key \<notin> fst ` set results \<Longrightarrow>
   key \<notin> fst ` set (fst (mget_loop svc results keys ns))"
proof (induction keys arbitrary: svc results)
  case Nil
  then show ?case by simp
next
  case (Cons kn keys)
  obtain k now where kn: "kn = (k, now)" by (cases kn)
  obtain v svc' where g: "InMemory_get svc now k ns = (v, svc')"
    by (cases "InMemory_get svc now k ns")
  have j: "none_or_absent svc' key ns"
    using get_other_none_or_absent[OF Cons.prems(1), of now k] g by simp
  show ?case
  proof (cases "v \<noteq> PyNone")
    case True
    then have "k \<noteq> key"
      using get_none_or_absent(1)[OF Cons.prems(1), of now] g by auto
    then have "key \<notin> fst ` set (dict_set results k v)"
      using Cons.prems(2) by (simp add: keys_dict_set)
    from Cons.IH[OF j this] show ?thesis
      using kn g True by simp
  next
    case False
    from Cons.IH[OF j Cons.prems(2)] show ?thesis
      using kn g False by simp
  qed
qed

lemma mget_loop_no_None:
  "PyNone \<notin> snd ` set results \<Longrightarrow>
   PyNone \<notin> snd ` set (fst (mget_loop svc results keys ns))"
proof (induction keys arbitrary: svc results)
  case Nil
  then show ?case by simp
next
  case (Cons kn keys)
  have ds: "v \<noteq> PyNone \<Longrightarrow> PyNone \<notin> snd ` set d \<Longrightarrow> PyNone \<notin> snd ` set (dict_set d k v)"
    for d :: "(string \<times> 'a pyval) list" and k v
    using vals_dict_set[of d k v] by auto
  obtain k now where kn: "kn = (k, now)" by (cases kn)
  obtain v svc' where g: "InMemory_get svc now k ns = (v, svc')"
    by (cases "InMemory_get svc now k ns")
  show ?case
    using Cons.IH[of "dict_set results k v" svc'] Cons.IH[of results svc'] Cons.prems kn g ds
    by (cases "v = PyNone") auto
qed

text \<open>
  C10. Let the store hold an entry for key \<open>k\<close> whose value is \<open>None\<close>. Then \<open>get\<close>
  returns for \<open>k\<close> what it returns on a store without \<open>k\<close>; every \<open>get_or_set\<close> on
  \<open>k\<close> is a miss: it increments \<open>miss_count\<close>, leaves \<open>hit_count\<close>, and calls
  \<open>value_func\<close>; in a run of calls whose \<open>value_func\<close> returns \<open>None\<close> each call
  is a miss again and calls \<open>value_func\<close> again; and the mapping returned by \<open>mget\<close>
  has no entry for \<open>k\<close> (nor any \<open>None\<close> value).
\<close>

theorem cached_None_is_absent:
  assumes "dict_get (cache (cache_service m)) (InMemory_make_key key ns) = Some e"
    and "val e = PyNone"
  shows "(\<forall>svc0 now. dict_get (cache svc0) (InMemory_make_key key ns) = None \<longrightarrow>
            fst (InMemory_get (cache_service m) now key ns) = fst (InMemory_get svc0 now key ns))
    \<and> (\<forall>now_get now1 now2 f w ttl.
          case get_or_set m now_get now1 now2 key f w ttl ns of
            (r, m', w') \<Rightarrow>
              miss_count m' = miss_count m + 1 \<and> hit_count m' = hit_count m
              \<and> w' = snd (f w) \<and> (r = fst (f w) \<or> (\<exists>x. r = Inl (OverflowError x))))
    \<and> (\<forall>f w calls. (\<forall>w. fst (f w) = Inr PyNone) \<longrightarrow>
          (case get_or_set_run m w key f ns calls of
            (m', w') \<Rightarrow>
              miss_count m' = miss_count m + length calls \<and> hit_count m' = hit_count m
              \<and> w' = ((\<lambda>a. snd (f a)) ^^ length calls) w))
    \<and> (\<forall>keys. key \<notin> fst ` set (fst (mget m keys ns))
               \<and> PyNone \<notin> snd ` set (fst (mget m keys ns)))"
proof -
  have j: "none_or_absent (cache_service m) key ns"
    using assms by (simp add: none_or_absent_def)
  have a: "fst (InMemory_get (cache_service m) now key ns) = fst (InMemory_get svc0 now key ns)"
    if "dict_get (cache svc0) (InMemory_make_key key ns) = None" for svc0 now
  proof -
    have "none_or_absent svc0 key ns" using that by (simp add: none_or_absent_def)
    from get_none_or_absent(1)[OF this] get_none_or_absent(1)[OF j] show ?thesis by simp
  qed
  have b: "case get_or_set m now_get now1 now2 key f w ttl ns of
            (r, m', w') \<Rightarrow>
              miss_count m' = miss_count m + 1 \<and> hit_count m' = hit_count m
              \<and> w' = snd (f w) \<and> (r = fst (f w) \<or> (\<exists>x. r = Inl (OverflowError x)))"
    for now_get now1 now2 ttl w and f :: "'b \<Rightarrow> (exn + 'a pyval) \<times> 'b"
  proof -
    obtain r m' w' where s: "get_or_set m now_get now1 now2 key f w ttl ns = (r, m', w')"
      by (cases "get_or_set m now_get now1 now2 key f w ttl ns") auto
    from get_or_set_miss[OF get_none_or_absent(1)[OF j] s] s show ?thesis by simp
  qed
  have c: "case get_or_set_run m w key f ns calls of
            (m', w') \<Rightarrow>
              miss_count m' = miss_count m + length calls \<and> hit_count m' = hit_count m
              \<and> w' = ((\<lambda>a. snd (f a)) ^^ length calls) w"
    if "\<forall>w. fst (f w) = Inr PyNone" for w calls and f :: "'c \<Rightarrow> (exn + 'a pyval) \<times> 'c"
  proof -
    obtain m' w' where s: "get_or_set_run m w key f ns calls = (m', w')"
      by (cases "get_or_set_run m w key f ns calls") auto
    from get_or_set_run_none[OF that j s] s show ?thesis by simp
  qed
  have d: "key \<notin> fst ` set (fst (mget m keys ns)) \<and> PyNone \<notin> snd ` set (fst (mget m keys ns))"
    for keys
  proof -
    have "key \<notin> fst ` set (fst (mget_loop (cache_service m) [] keys ns))"
      by (rule mget_loop_omits[OF j]) simp
    moreover have "PyNone \<notin> snd ` set (fst (mget_loop (cache_service m) [] keys ns))"
      by (rule mget_loop_no_None) simp
    ultimately show ?thesis
      by (cases "mget_loop (cache_service m) [] keys ns") (simp add: mget_def)
  qed
  show ?thesis
  proof (intro conjI allI impI)
    fix svc0 :: "'a InMemoryCacheService" and now
    assume "dict_get (cache svc0) (InMemory_make_key key ns) = None"
    then show "fst (InMemory_get (cache_service m) now key ns) = fst (InMemory_get svc0 now key ns)"
      by (rule a)
  next
    fix now_get now1 now2 ttl w and f :: "'b \<Rightarrow> (exn + 'a pyval) \<times> 'b"
    show "case get_or_set m now_get now1 now2 key f w ttl ns of
            (r, m', w') \<Rightarrow>
              miss_count m' = miss_count m + 1 \<and> hit_count m' = hit_count m
              \<and> w' = snd (f w) \<and> (r = fst (f w) \<or> (\<exists>x. r = Inl (OverflowError x)))"
      by (rule b)
  next
    fix w calls and f :: "'c \<Rightarrow> (exn + 'a pyval) \<times> 'c"
    assume "\<forall>w. fst (f w) = Inr PyNone"
    then show "case get_or_set_run m w key f ns calls of
            (m', w') \<Rightarrow>
              miss_count m' = miss_count m + length calls \<and> hit_count m' = hit_count m
              \<and> w' = ((\<lambda>a. snd (f a)) ^^ length calls) w"
      by (rule c)
  next
    fix keys
    show "key \<notin> fst ` set (fst (mget m keys ns))" using d by blast
  next
    fix keys
    show "PyNone \<notin> snd ` set (fst (mget m keys ns))" using d by blast
  qed
qed

theorem cached_None_is_absent_witness:
  "fst (InMemory_get (cache_service m_none) 50 ''k'' ''default'')
     = fst (InMemory_get InMemoryCacheService_init 50 ''k'' ''default'')
   \<and> (case get_or_set_run m_none 0 ''k'' counting_None ''default''
            [(50, 51, 52, None), (60, 61, 62, Some 5), (70, 71, 72, None)] of
         (m', w') \<Rightarrow> miss_count m' = 3 \<and> hit_count m' = 0 \<and> w' = 3)
   \<and> fst (mget m_none [(''k'', 50)] ''default'') = []"
proof -
  have s: "dict_get (cache (cache_service m_none)) (InMemory_make_key ''k'' ''default'')
            = Some \<lparr>val = PyNone, expires_at = Some 100, created_at = 0\<rparr>"
    by (simp add: m_none_def dict_get_def InMemory_make_key_def)
  have v: "val \<lparr>val = PyNone :: nat pyval, expires_at = Some (100::int), created_at = (0::int)\<rparr> = PyNone"
    by simp
  note t = cached_None_is_absent[OF s v]
  have e: "dict_get (cache (InMemoryCacheService_init :: nat InMemoryCacheService))
             (InMemory_make_key ''k'' ''default'') = None"
    by (simp add: InMemoryCacheService_init_def dict_get_def)
  have t1: "fst (InMemory_get (cache_service m_none) 50 ''k'' ''default'')
     = fst (InMemory_get InMemoryCacheService_init 50 ''k'' ''default'')"
    using t[THEN conjunct1, rule_format, OF e] .
  have n: "fst (counting_None w) = Inr PyNone" for w by (simp add: counting_None_def)
  have fp: "((\<lambda>a. snd (counting_None a)) ^^ k) 0 = k" for k
    by (induction k) (simp_all add: counting_None_def)
  obtain m' w' where r: "get_or_set_run m_none 0 ''k'' counting_None ''default''
            [(50, 51, 52, None), (60, 61, 62, Some 5), (70, 71, 72, None)] = (m', w')"
    by (cases "get_or_set_run m_none 0 ''k'' counting_None ''default''
            [(50, 51, 52, None), (60, 61, 62, Some 5), (70, 71, 72, None)]") auto
  have t2: "miss_count m' = 3 \<and> hit_count m' = 0 \<and> w' = 3"
    using t[THEN conjunct2, THEN conjunct2, THEN conjunct1, rule_format,
        where f = counting_None and w = 0
          and calls = "[(50, 51, 52, None), (60, 61, 62, Some 5), (70, 71, 72, None)]", OF n]
    unfolding r fp by (simp add: m_none_def)
  have t3: "fst (mget m_none [(''k'', 50)] ''default'') = []"
    by (simp add: mget_def m_none_def InMemory_get_def dict_get_def InMemory_make_key_def
        is_expired_def)
  show ?thesis
    unfolding r using t1 t2 t3 by simp
qed

text \<open>
  Binary64 arithmetic: \<open>ilog2\<close> finds the binade, \<open>double_of\<close> is within half a
  spacing of its argument, and it is exact on the numbers met in the scenario of one miss and
  one hit.
\<close>

lemma bit_length_pos: "0 < n \<Longrightarrow> 0 < bit_length n"
  by (cases n) simp_all

lemma bit_length_step: "0 < n \<Longrightarrow> bit_length n = Suc (bit_length (n div 2))"
  by (cases n) simp_all

lemma bit_length_bounds: "0 < n \<Longrightarrow> 2 ^ (bit_length n - 1) \<le> n \<and> n < 2 ^ bit_length n"
proof (induction n rule: less_induct)
  case (less n)
  show ?case
  proof (cases "n div 2 = 0")
    case True
    with less(2) have "n = 1" by (simp add: div_eq_0_iff)
    then show ?thesis by simp
  next
    case False
    then have p: "0 < n div 2" by simp
    have "n div 2 < n" using less(2) by simp
    from less(1)[OF this p]
    have ih: "2 ^ (bit_length (n div 2) - 1) \<le> n div 2" "n div 2 < 2 ^ bit_length (n div 2)"
      by auto
    have bl: "bit_length n = Suc (bit_length (n div 2))"
      using less(2) by (rule bit_length_step)
    obtain k where k: "bit_length (n div 2) = Suc k"
      using bit_length_pos[OF p] by (cases "bit_length (n div 2)") auto
    show ?thesis
      using ih unfolding bl k by simp linarith
  qed
qed

lemma ilog2_bounds:
  assumes "0 < x"
  shows "2 powi (ilog2 x) \<le> x \<and> x < 2 powi (ilog2 x + 1)"
proof (cases "1 \<le> x")
  case True
  define n where "n = nat \<lfloor>x\<rfloor>"
  have n: "0 < n" "of_nat n \<le> x" "x < of_nat n + 1"
    using True unfolding n_def by (simp_all add: le_floor_iff) linarith+
  from bit_length_bounds[OF n(1)] bit_length_pos[OF n(1)]
  obtain k where k: "bit_length n = Suc k" "2 ^ k \<le> n" "n < 2 ^ Suc k"
    by (cases "bit_length n") auto
  have e: "ilog2 x = int k" using True by (simp add: ilog2_def n_def[symmetric] k)
  have "(2::rat) ^ k \<le> of_nat n" using k(2) by (metis of_nat_le_iff of_nat_numeral of_nat_power)
  moreover have "of_nat n + 1 \<le> (2::rat) ^ Suc k"
  proof -
    have "n + 1 \<le> 2 ^ Suc k" using k(3) by simp
    then have "(of_nat (n + 1) :: rat) \<le> of_nat (2 ^ Suc k)" by (simp only: of_nat_le_iff)
    then show ?thesis by simp
  qed
  ultimately have "(2::rat) ^ k \<le> x" "x < (2::rat) ^ Suc k" using n by linarith+
  moreover have "(2::rat) powi (int k + 1) = 2 ^ Suc k"
  proof -
    have "int k + 1 = int (Suc k)" by simp
    then show ?thesis by (simp only: power_int_of_nat)
  qed
  ultimately show ?thesis unfolding e by (simp only: power_int_of_nat)
next
  case False
  then have x1: "x < 1" by simp
  define n where "n = nat (\<lceil>1 / x\<rceil> - 1)"
  have "1 < 1 / x" using assms x1 by (simp add: field_simps)
  then have c: "2 \<le> \<lceil>1 / x\<rceil>" by linarith
  have n: "0 < n" "of_nat n < 1 / x" "1 / x \<le> of_nat n + 1"
    using c unfolding n_def by (simp_all) linarith+
  from bit_length_bounds[OF n(1)] bit_length_pos[OF n(1)]
  obtain k where k: "bit_length n = Suc k" "2 ^ k \<le> n" "n < 2 ^ Suc k"
    by (cases "bit_length n") auto
  have e: "ilog2 x = - int (Suc k)" using False by (simp add: ilog2_def n_def[symmetric] k)
  have a: "(2::rat) ^ k \<le> of_nat n" using k(2) by (metis of_nat_le_iff of_nat_numeral of_nat_power)
  have b: "of_nat n + 1 \<le> (2::rat) ^ Suc k"
  proof -
    have "n + 1 \<le> 2 ^ Suc k" using k(3) by simp
    then have "(of_nat (n + 1) :: rat) \<le> of_nat (2 ^ Suc k)" by (simp only: of_nat_le_iff)
    then show ?thesis by simp
  qed
  have lo: "1 / 2 ^ Suc k \<le> x"
  proof -
    have "1 / x \<le> 2 ^ Suc k" using n(3) b by linarith
    then show ?thesis using assms by (simp add: field_simps)
  qed
  have hi: "x < 1 / 2 ^ k"
  proof -
    have "2 ^ k < 1 / x" using n(2) a by linarith
    then show ?thesis using assms by (simp add: field_simps)
  qed
  have p1: "(2::rat) powi (- int (Suc k)) = 1 / 2 ^ Suc k"
    by (simp only: power_int_minus_divide power_int_of_nat)
  have p2: "(2::rat) powi (- int (Suc k) + 1) = 1 / 2 ^ k"
  proof -
    have "- int (Suc k) + 1 = - int k" by simp
    then show ?thesis by (simp only: power_int_minus_divide power_int_of_nat)
  qed
  show ?thesis unfolding e p1 p2 using lo hi by simp
qed


lemma ilog2_eqI:
  assumes lo: "2 powi e \<le> x" and hi: "x < 2 powi (e + 1)"
  shows "ilog2 x = e"
proof -
  have "(0::rat) < 2 powi e" by (simp add: zero_less_power_int)
  with lo have x: "0 < x" by linarith
  note b = ilog2_bounds[OF x]
  have "\<not> e + 1 \<le> ilog2 x"
  proof
    assume "e + 1 \<le> ilog2 x"
    then have "(2::rat) powi (e + 1) \<le> 2 powi (ilog2 x)" by (rule power_int_increasing) simp
    with b hi show False by linarith
  qed
  moreover have "\<not> ilog2 x + 1 \<le> e"
  proof
    assume "ilog2 x + 1 \<le> e"
    then have "(2::rat) powi (ilog2 x + 1) \<le> 2 powi e" by (rule power_int_increasing) simp
    with b lo show False by linarith
  qed
  ultimately show ?thesis by linarith
qed

lemma round_half_even_near: "\<bar>of_int (round_half_even y) - y\<bar> \<le> 1 / 2"
proof -
  have "of_int \<lfloor>y\<rfloor> \<le> y" "y < of_int \<lfloor>y\<rfloor> + 1" by linarith+
  then show ?thesis
    by (auto simp: round_half_even_def Let_def)
qed

lemma round_half_even_eqI:
  assumes "\<bar>y - of_int k\<bar> < 1 / 2"
  shows "round_half_even y = k"
proof -
  have "\<bar>(of_int (round_half_even y) :: rat) - of_int k\<bar> < 1"
    using round_half_even_near[of y] assms by linarith
  then have "\<bar>(of_int (round_half_even y - k) :: rat)\<bar> < 1" by simp
  then have "\<bar>round_half_even y - k\<bar> < 1"
    by (metis of_int_abs of_int_less_1_iff)
  then show ?thesis by linarith
qed

lemma round_half_even_of_int: "round_half_even (of_int k) = k"
  by (rule round_half_even_eqI) simp

lemma double_of_eqI:
  assumes "2 powi e \<le> \<bar>x\<bar>" and "\<bar>x\<bar> < 2 powi (e + 1)" and "- 1022 \<le> e"
  shows "double_of x = of_int (round_half_even (x / 2 powi (e - 52))) * 2 powi (e - 52)"
proof -
  have "(0::rat) < 2 powi e" by (simp add: zero_less_power_int)
  with assms(1) have "0 < \<bar>x\<bar>" by linarith
  then have "x \<noteq> 0" by simp
  moreover have "ilog2 \<bar>x\<bar> = e" using assms(1,2) by (rule ilog2_eqI)
  ultimately show ?thesis using assms(3) by (simp add: double_of_def Let_def max_def)
qed



lemma double_of_int_small:
  assumes "2 ^ n \<le> \<bar>k\<bar>" "\<bar>k\<bar> < 2 ^ Suc n" "n \<le> 52"
  shows "double_of (of_int k) = of_int k"
proof -
  let ?x = "of_int k :: rat"
  have lo: "2 powi (int n) \<le> \<bar>?x\<bar>"
  proof -
    have "(of_int (2 ^ n) :: rat) \<le> of_int \<bar>k\<bar>" using assms(1) by (simp only: of_int_le_iff)
    then show ?thesis by (simp add: power_int_of_nat)
  qed
  have hi: "\<bar>?x\<bar> < 2 powi (int n + 1)"
  proof -
    have "(of_int \<bar>k\<bar> :: rat) < of_int (2 ^ Suc n)" using assms(2) by (simp only: of_int_less_iff)
    moreover have "int n + 1 = int (Suc n)" by simp
    ultimately show ?thesis by (simp only: power_int_of_nat) simp
  qed
  have d: "double_of ?x
      = of_int (round_half_even (?x / 2 powi (int n - 52))) * 2 powi (int n - 52)"
    using lo hi by (rule double_of_eqI) simp
  have m: "int n - 52 = - int (52 - n)" using assms(3) by simp
  have "?x / 2 powi (int n - 52) = of_int (k * 2 ^ (52 - n))"
    unfolding m by (simp add: power_int_minus_divide)
  then show ?thesis unfolding d
    by (simp only: round_half_even_of_int) (simp add: m power_int_minus_divide)
qed

lemma double_of_100: "double_of 100 = 100"
  using double_of_int_small[of 6 100] by simp





lemma double_of_23_160: "double_of (23 / 160) = 5179139571476070 / 2 ^ 55"
proof -
  have "double_of (23 / 160)
      = of_int (round_half_even ((23 / 160) / 2 powi (- 3 - 52))) * 2 powi (- 3 - 52)"
    by (rule double_of_eqI) (simp_all add: power_int_minus_divide)
  moreover have "round_half_even ((23 / 160) / 2 powi (- 3 - 52)) = 5179139571476070"
    by (rule round_half_even_eqI) (simp add: power_int_minus_divide)
  ultimately show ?thesis by (simp add: power_int_minus_divide)
qed

lemma double_of_23_160_times_100:
  "double_of (5179139571476070 / 2 ^ 55 * 100) = 8092405580431359 / 2 ^ 49"
proof -
  have "double_of (5179139571476070 / 2 ^ 55 * 100)
      = of_int (round_half_even ((5179139571476070 / 2 ^ 55 * 100) / 2 powi (3 - 52)))
          * 2 powi (3 - 52)"
    by (rule double_of_eqI) (simp_all add: power_int_minus_divide)
  moreover have "round_half_even ((5179139571476070 / 2 ^ 55 * 100) / 2 powi (3 - 52))
      = 8092405580431359"
    by (rule round_half_even_eqI) (simp add: power_int_minus_divide)
  ultimately show ?thesis by (simp add: power_int_minus_divide)
qed

lemma ieee_ratio_unfold:
  "float_round ieee_double (float_mul_int ieee_double (int_truediv ieee_double a b) 100) 2
     = double_of (round_decimal (double_of (double_of (of_int a / of_int b) * 100)) 2)"
  by (simp add: ieee_double_def double_of_100)

lemma ieee_ratio_23_137:
  "float_round ieee_double (float_mul_int ieee_double (int_truediv ieee_double 23 160) 100) 2
     = double_of (1437 / 100)
   \<and> round_decimal (23 / 160 * 100) 2 = 1438 / 100"
proof -
  have "round_half_even (8092405580431359 / 2 ^ 49 * 100) = 1437"
    by (rule round_half_even_eqI) simp
  then have rd: "round_decimal (8092405580431359 / 2 ^ 49) 2 = 1437 / 100"
    by (simp add: round_decimal_def)
  have "float_round ieee_double
      (float_mul_int ieee_double (int_truediv ieee_double 23 160) 100) 2
      = double_of (round_decimal (double_of (double_of (23 / 160) * 100)) 2)"
    using ieee_ratio_unfold[of 23 160] by simp
  then have 1: "float_round ieee_double
      (float_mul_int ieee_double (int_truediv ieee_double 23 160) 100) 2 = double_of (1437 / 100)"
    unfolding double_of_23_160 double_of_23_160_times_100 rd .
  have "\<lfloor>(2875::rat) / 2\<rfloor> = 1437" by (rule floor_unique) simp_all
  then have 2: "round_decimal (23 / 160 * 100) 2 = 1438 / 100"
    by (simp add: round_decimal_def round_half_even_def)
  from 1 2 show ?thesis by blast
qed

lemma double_of_1_20000: "double_of (1 / 20000) = 7378697629483821 / 2 ^ 67"
proof -
  have "double_of (1 / 20000)
      = of_int (round_half_even ((1 / 20000) / 2 powi (- 15 - 52))) * 2 powi (- 15 - 52)"
    by (rule double_of_eqI) (simp_all add: power_int_minus_divide)
  moreover have "round_half_even ((1 / 20000) / 2 powi (- 15 - 52)) = 7378697629483821"
    by (rule round_half_even_eqI) (simp add: power_int_minus_divide)
  ultimately show ?thesis by (simp add: power_int_minus_divide)
qed

lemma double_of_1_20000_times_100:
  "double_of (7378697629483821 / 2 ^ 67 * 100) = 5764607523034235 / 2 ^ 60"
proof -
  have "double_of (7378697629483821 / 2 ^ 67 * 100)
      = of_int (round_half_even ((7378697629483821 / 2 ^ 67 * 100) / 2 powi (- 8 - 52)))
          * 2 powi (- 8 - 52)"
    by (rule double_of_eqI) (simp_all add: power_int_minus_divide)
  moreover have "round_half_even ((7378697629483821 / 2 ^ 67 * 100) / 2 powi (- 8 - 52))
      = 5764607523034235"
    by (rule round_half_even_eqI) (simp add: power_int_minus_divide)
  ultimately show ?thesis by (simp add: power_int_minus_divide)
qed

lemma ieee_ratio_1_19999:
  "float_round ieee_double (float_mul_int ieee_double (int_truediv ieee_double 1 20000) 100) 2
     = double_of (1 / 100)
   \<and> round_decimal (1 / 20000 * 100) 2 = 0"
proof -
  have "round_half_even (5764607523034235 / 2 ^ 60 * 100) = 1"
    by (rule round_half_even_eqI) simp
  then have rd: "round_decimal (5764607523034235 / 2 ^ 60) 2 = 1 / 100"
    by (simp add: round_decimal_def)
  have "float_round ieee_double
      (float_mul_int ieee_double (int_truediv ieee_double 1 20000) 100) 2
      = double_of (round_decimal (double_of (double_of (1 / 20000) * 100)) 2)"
    using ieee_ratio_unfold[of 1 20000] by simp
  then have 1: "float_round ieee_double
      (float_mul_int ieee_double (int_truediv ieee_double 1 20000) 100) 2 = double_of (1 / 100)"
    unfolding double_of_1_20000 double_of_1_20000_times_100 rd .
  have "\<lfloor>(1::rat) / 2\<rfloor> = 0" by (rule floor_unique) simp_all
  then have 2: "round_decimal (1 / 20000 * 100) 2 = 0"
    by (simp add: round_decimal_def round_half_even_def)
  from 1 2 show ?thesis by blast
qed



text \<open>
  In binary64 arithmetic the percentage is not always the exact percentage rounded to two
  decimals. With 23 hits and 137 misses the exact percentage is 14.375, a tie that rounds to
  14.38, but the product \<open>23 / 160 * 100\<close> is a float just below 14.375 and the result is
  the float nearest to 14.37. With 1 hit and 19999 misses the exact percentage is 0.005, a tie
  that rounds to 0, but the product is a float just above 0.005 and the result is the float
  nearest to 0.01.
\<close>

lemma hit_ratio_at_ties:
  "stats_hit_ratio_percent (get_cache_stats ieee_double
       \<lparr>cache_service = svc, hit_count = 23, miss_count = 137\<rparr>) = PyFloat (double_of (1437 / 100))
   \<and> round_decimal (23 / 160 * 100) 2 = 1438 / 100
   \<and> stats_hit_ratio_percent (get_cache_stats ieee_double
       \<lparr>cache_service = svc, hit_count = 1, miss_count = 19999\<rparr>) = PyFloat (double_of (1 / 100))
   \<and> round_decimal (1 / 20000 * 100) 2 = 0"
proof -
  have a: "stats_hit_ratio_percent (get_cache_stats ieee_double
       \<lparr>cache_service = svc, hit_count = 23, miss_count = 137\<rparr>) = PyFloat (double_of (1437 / 100))"
    using ieee_ratio_23_137 by (simp add: get_cache_stats_def round_py_def)
  have b: "stats_hit_ratio_percent (get_cache_stats ieee_double
       \<lparr>cache_service = svc, hit_count = 1, miss_count = 19999\<rparr>) = PyFloat (double_of (1 / 100))"
    using ieee_ratio_1_19999 by (simp add: get_cache_stats_def round_py_def)
  from a b ieee_ratio_23_137 ieee_ratio_1_19999 show ?thesis by blast
qed



section \<open>Properties of the cache-key derivation\<close>

lemma content_code_inj:
  "suggestion_content code language context = suggestion_content code2 language context
   \<longleftrightarrow> code = code2"
  by (simp add: suggestion_content_def)

lemma content_language_inj:
  "suggestion_content code language context = suggestion_content code language2 context
   \<longleftrightarrow> language = language2"
  by (simp add: suggestion_content_def)

lemma content_context_inj:
  "suggestion_content code language context = suggestion_content code language context2
   \<longleftrightarrow> context_or_empty context = context_or_empty context2"
  by (simp add: suggestion_content_def)

text \<open>
  C6, as the code has it. The key is the digest of the content string, so identical
  arguments give the identical key. A context of \<open>None\<close> and an empty context give the same
  content and so the same key. Changing the code or the language, or changing the context
  to one that differs once \<open>None\<close> is read as the empty string, while keeping the other
  two arguments, changes the content string that is hashed.
\<close>

theorem cache_key_derivation:
  "cache_key_for_suggestion digest code language context
     = digest (suggestion_content code language context)
   \<and> cache_key_for_suggestion digest code language None
     = cache_key_for_suggestion digest code language (Some [])
   \<and> (code \<noteq> code2 \<longrightarrow>
        suggestion_content code language context \<noteq> suggestion_content code2 language context)
   \<and> (language \<noteq> language2 \<longrightarrow>
        suggestion_content code language context \<noteq> suggestion_content code language2 context)
   \<and> (context_or_empty context \<noteq> context_or_empty context2 \<longrightarrow>
        suggestion_content code language context \<noteq> suggestion_content code language context2)
   \<and> context_or_empty None = [] \<and> context_or_empty (Some c) = c"
  by (simp add: cache_key_for_suggestion_def content_code_inj content_language_inj
      content_context_inj) (simp add: suggestion_content_def context_or_empty_def)

theorem cache_key_derivation_witness:
  "suggestion_content ''x = 1'' ''python'' (Some ''ctx'')
     \<noteq> suggestion_content ''x = 2'' ''python'' (Some ''ctx'')
   \<and> suggestion_content ''x = 1'' ''python'' (Some ''ctx'')
     \<noteq> suggestion_content ''x = 1'' ''pythoN'' (Some ''ctx'')
   \<and> suggestion_content ''x = 1'' ''python'' (Some ''ctx'')
     \<noteq> suggestion_content ''x = 1'' ''python'' None"
  using cache_key_derivation [of rev "''x = 1''" "''python''" "Some ''ctx''" "''x = 2''"
      "''pythoN''" None]
  by (simp add: context_or_empty_def)

text \<open>
  C6 as stated fails when the context changes from \<open>None\<close> to the empty string: the hashed
  content is the same.
\<close>

theorem context_none_empty_counterexample:
  "(None :: string option) \<noteq> Some []
   \<and> suggestion_content ''x = 1'' ''python'' None
     = suggestion_content ''x = 1'' ''python'' (Some [])"
  by (simp add: suggestion_content_def context_or_empty_def)

section \<open>Properties of the session stores\<close>

lemma types_create_session_ok:
  "types_create_session new_id now user workspace =
     Inr \<lparr>id' = new_id, whatsapp_user = user, vscode_workspace = workspace, status = ACTIVE,
          created_at = now, last_activity = now, context' = ArgNone, active_suggestions = [],
          metadata = []\<rparr>"
  by (cases workspace)
     (simp_all add: types_create_session_def Session_new_def Session_fields_def opt_arg_def)

lemma Session_new_manager_kwargs:
  "Session_new (manager_kwargs sid u w st c l n cmds) = Inl session_id_TypeError"
  by (simp add: Session_new_def manager_kwargs_def Session_fields_def session_id_TypeError_def)

lemma SessionStatus_ENDED: "SessionStatus_member ''ENDED'' = Inl (AttributeError ''ENDED'')"
  by (simp add: SessionStatus_member_def)

lemma Session_no_session_id: "Session_getattr s ''session_id'' = Inl (AttributeError ''session_id'')"
  by (simp add: Session_getattr_def)

lemma InMemory_create_session_result:
  "InMemory_create_session mgr new_id now1 now2 user workspace =
     (case active_session_of mgr user of
        Some s \<Rightarrow> Inr (s, mgr)
      | None \<Rightarrow> Inl session_id_TypeError)"
  by (simp add: InMemory_create_session_def active_session_of_def Session_new_manager_kwargs
      split: option.splits)

lemma InMemory_create_session_existing:
  assumes "active_session_of mgr user = Some s"
  shows "InMemory_create_session mgr new_id now1 now2 user workspace = Inr (s, mgr)"
  using assms by (simp add: InMemory_create_session_result)

lemma InMemory_end_session_result:
  "InMemory_end_session mgr now session_id =
     (case dict_get (sessions mgr) session_id of
        None \<Rightarrow> Inr mgr
      | Some s \<Rightarrow> Inl (AttributeError ''ENDED''))"
  by (simp add: InMemory_end_session_def SessionStatus_ENDED split: option.splits)

lemma session_kwargs_shape:
  "session_kwargs lib d = Some kwargs \<Longrightarrow> \<exists>sid u w st c l n cmds.
     kwargs = manager_kwargs sid u w st c l n cmds"
  by (auto simp: session_kwargs_def split: option.splits prod.splits) blast+

lemma get_session_on_result:
  "fst (get_session_on cl lib session_id r) = Inr None
   \<or> (\<exists>e. fst (get_session_on cl lib session_id r) = Inl e)"
proof (cases "r_hgetall cl (''session:'' @ session_id) r")
  case (Pair res r')
  show ?thesis
  proof (cases res)
    case (Inl e)
    with Pair show ?thesis by (simp add: get_session_on_def)
  next
    case (Inr session_data)
    show ?thesis
    proof (cases "session_kwargs lib session_data")
      case None
      with Pair Inr show ?thesis by (simp add: get_session_on_def)
    next
      case (Some kwargs)
      from session_kwargs_shape[OF Some] obtain sid u w st c l n cmds
        where "kwargs = manager_kwargs sid u w st c l n cmds" by blast
      then have "Session_new kwargs = Inl session_id_TypeError"
        by (simp add: Session_new_manager_kwargs)
      with Pair Inr Some show ?thesis
        by (simp add: get_session_on_def session_id_TypeError_def)
    qed
  qed
qed

lemma get_user_session_on_result:
  "fst (get_user_session_on cl lib user_id r) = Inr None
   \<or> (\<exists>e. fst (get_user_session_on cl lib user_id r) = Inl e)"
proof (cases "r_get cl (''user_session:'' @ user_id) r")
  case (Pair res r')
  show ?thesis
  proof (cases res)
    case (Inl e)
    with Pair show ?thesis by (simp add: get_user_session_on_def)
  next
    case (Inr v)
    show ?thesis
    proof (cases v)
      case None
      with Pair Inr show ?thesis by (simp add: get_user_session_on_def)
    next
      case (Some sid)
      with Pair Inr get_session_on_result[of cl lib sid r'] show ?thesis
        by (auto simp: get_user_session_on_def)
    qed
  qed
qed

lemma create_session_on_raises:
  "\<exists>e. fst (create_session_on cl lib ttl new_id now1 now2 user workspace r) = Inl e"
proof (cases "get_user_session_on cl lib user r")
  case (Pair res r1)
  from get_user_session_on_result[of cl lib user r] Pair
  consider "res = Inr None" | e where "res = Inl e" by auto
  then show ?thesis
  proof cases
    case 1
    with Pair show ?thesis
      by (simp add: create_session_on_def Session_new_manager_kwargs)
  next
    case 2
    with Pair show ?thesis by (simp add: create_session_on_def)
  qed
qed

lemma when_connected_fst:
  "fst (when_connected mgr body) =
     (case RedisSessionManager.redis_client mgr of None \<Rightarrow> Inl not_connected | Some r \<Rightarrow> fst (body r))"
  by (simp add: when_connected_def split: option.splits prod.splits)

text \<open>
  C1 on the code. On a fresh process-local store, and on a connected durable store over an
  empty backend, \<open>create_session("u1")\<close> raises TypeError instead of returning a session,
  and so does the second call: \<open>Session(...)\<close> is called with the keyword
  \<open>session_id\<close>, which the dataclass of types.py does not have.
\<close>

theorem create_session_twice_raises:
  "InMemory_create_session InMemorySessionManager_init ''id-1'' 10 11 ''u1'' None
     = Inl session_id_TypeError
   \<and> InMemory_create_session InMemorySessionManager_init ''id-2'' 20 21 ''u1'' None
     = Inl session_id_TypeError
   \<and> RedisSession_create_session plain_redis lib0 (connected empty_db) ''id-1'' 10 11 ''u1'' None
     = (Inl session_id_TypeError, connected empty_db)
   \<and> RedisSession_create_session plain_redis lib0 (connected empty_db) ''id-2'' 20 21 ''u1'' None
     = (Inl session_id_TypeError, connected empty_db)"
  by (simp add: InMemory_create_session_result active_session_of_def
      InMemorySessionManager_init_def dict_get_def RedisSession_create_session_def
      when_connected_def connected_def create_session_on_def get_user_session_on_def
      plain_redis_def empty_db_def Session_new_manager_kwargs)

text \<open>
  C2, as the code behaves. When the index of the process-local store gives no Active
  session for the user, \<open>create_session\<close> raises TypeError and neither returns nor stores
  a session; the durable store's \<open>create_session\<close> raises on every backend and in every
  state.
\<close>

theorem create_session_raises:
  "(active_session_of mgr user = None \<longrightarrow>
      InMemory_create_session mgr new_id now1 now2 user workspace = Inl session_id_TypeError)
   \<and> (\<exists>e. fst (RedisSession_create_session cl lib rmgr new_id now1 now2 user workspace) = Inl e)"
proof -
  have "\<exists>e. fst (RedisSession_create_session cl lib rmgr new_id now1 now2 user workspace) = Inl e"
    unfolding RedisSession_create_session_def when_connected_fst
    using create_session_on_raises by (auto split: option.splits)
  then show ?thesis
    by (simp add: InMemory_create_session_result)
qed

theorem create_session_raises_witness:
  "active_session_of InMemorySessionManager_init ''u1'' = None
   \<and> InMemory_create_session InMemorySessionManager_init ''id-1'' 10 11 ''u1'' (Some ''/ws'')
       = Inl session_id_TypeError"
proof -
  have a: "active_session_of InMemorySessionManager_init ''u1'' = None"
    by (simp add: active_session_of_def InMemorySessionManager_init_def dict_get_def)
  from create_session_raises [of InMemorySessionManager_init "''u1''" "''id-1''" 10 11
      "Some ''/ws''", THEN conjunct1] a
  show ?thesis by simp
qed

lemma end_session_absent:
  "dict_get (sessions mgr) session_id = None \<Longrightarrow> InMemory_end_session mgr now session_id = Inr mgr"
  by (simp add: InMemory_end_session_result)

lemma end_session_on_absent:
  "fst (r_hgetall cl (''session:'' @ session_id) r) = Inr [] \<Longrightarrow>
   fst (end_session_on cl lib now session_id r) = Inr ()"
  by (cases "r_hgetall cl (''session:'' @ session_id) r")
     (simp add: end_session_on_def get_session_on_def)

lemma get_session_on_test_db:
  "get_session_on plain_redis lib0 ''test_session'' test_db = (Inl session_id_TypeError, test_db)"
  by (simp add: get_session_on_def plain_redis_def test_db_def hash_of_def dict_get_def
      session_kwargs_def test_session_data_def lib0_def SessionStatus_of_value_def
      Session_new_manager_kwargs session_id_TypeError_def)

text \<open>
  C3 on the code. Ending a session that is present raises: in the process-local
  store AttributeError, because \<open>SessionStatus\<close> has no member \<open>ENDED\<close>, and the index
  entry of the user stays; in the durable store TypeError, raised by \<open>get_session\<close> on
  the stored record.
\<close>

theorem end_session_raises:
  "InMemory_end_session mgr_s1 100 ''s1'' = Inl (AttributeError ''ENDED'')
   \<and> InMemory_get_user_session mgr_s1 ''u1'' = Some session_s1
   \<and> RedisSession_end_session plain_redis lib0 (connected test_db) 100 ''test_session''
       = (Inl session_id_TypeError, connected test_db)"
  by (simp add: InMemory_end_session_result mgr_s1_def dict_get_def InMemory_get_user_session_def
      RedisSession_end_session_def when_connected_def connected_def end_session_on_def
      get_session_on_test_db)

lemma cleanup_stale_entry:
  "RedisSession_cleanup_expired_sessions plain_redis lib0 (connected stale_db) now now_end
     = (if now < 86400000000 \<or> datetime_max + 86400000000 < now
        then (Inl (OverflowError ''date value out of range''), connected stale_db)
        else (Inr 1, connected (stale_db\<lparr>members := [(''active_sessions'', [])]\<rparr>)))"
  by (simp add: RedisSession_cleanup_expired_sessions_def when_connected_def connected_def
      cleanup_expired_sessions_on_def timedelta_seconds_def datetime_add_def plain_redis_def
      stale_db_def members_of_def dict_get_def get_session_on_def hash_of_def)

text \<open>
  C4 on the code. A sweep that finds a session older than the ttl raises instead
  of ending it and returning a count: AttributeError in the process-local store, TypeError
  in the durable store.
\<close>

theorem cleanup_raises:
  "InMemory_cleanup_expired_sessions mgr_s1 1000000000000 (\<lambda>sid. 1000000000000)
     = Inl (AttributeError ''ENDED'')
   \<and> RedisSession_cleanup_expired_sessions plain_redis lib0 (connected test_db)
        64000000000000000 (\<lambda>sid. 64000000000000000)
     = (Inl session_id_TypeError, connected test_db)"
proof -
  have a: "InMemory_cleanup_expired_sessions mgr_s1 1000000000000 (\<lambda>sid. 1000000000000)
     = Inl (AttributeError ''ENDED'')"
    by (simp add: InMemory_cleanup_expired_sessions_def mgr_s1_def timedelta_seconds_def
        datetime_add_def datetime_max_def session_s1_def InMemory_end_session_result dict_get_def)
  have b: "RedisSession_cleanup_expired_sessions plain_redis lib0 (connected test_db)
        64000000000000000 (\<lambda>sid. 64000000000000000)
     = (Inl session_id_TypeError, connected test_db)"
  proof -
    have m: "r_smembers plain_redis ''active_sessions'' test_db = (Inr [''test_session''], test_db)"
      by (simp add: plain_redis_def test_db_def members_of_def dict_get_def)
    show ?thesis
      by (simp add: RedisSession_cleanup_expired_sessions_def when_connected_def connected_def
          cleanup_expired_sessions_on_def timedelta_seconds_def datetime_add_def datetime_max_def
          m get_session_on_test_db)
  qed
  from a b show ?thesis by simp
qed

section \<open>Properties of the durable stores under backend failure\<close>

lemma Redis_get_connected:
  "RedisCacheService.redis_client svc = Some r \<Longrightarrow>
   \<exists>v. fst (Redis_get cl lib svc key namespace) = Inr v"
  by (auto simp: Redis_get_def Let_def split: prod.splits sum.splits option.splits)

lemma Redis_set_connected:
  "RedisCacheService.redis_client svc = Some r \<Longrightarrow>
   \<exists>b. fst (Redis_set cl lib svc key v ttl namespace) = Inr b"
  by (auto simp: Redis_set_def Let_def split: prod.splits sum.splits option.splits)

lemma Redis_delete_connected:
  "RedisCacheService.redis_client svc = Some r \<Longrightarrow>
   \<exists>b. fst (Redis_delete cl svc key namespace) = Inr b"
  by (auto simp: Redis_delete_def Let_def split: prod.splits sum.splits option.splits)

lemma Redis_exists_connected:
  "RedisCacheService.redis_client svc = Some r \<Longrightarrow>
   \<exists>b. fst (Redis_exists cl svc key namespace) = Inr b"
  by (auto simp: Redis_exists_def Let_def split: prod.splits sum.splits option.splits)

lemma Redis_clear_namespace_connected:
  "RedisCacheService.redis_client svc = Some r \<Longrightarrow>
   \<exists>n. fst (Redis_clear_namespace cl svc namespace) = Inr n"
  by (auto simp: Redis_clear_namespace_def Let_def split: prod.splits sum.splits option.splits)

lemma Redis_backend_raises:
  assumes "RedisCacheService.redis_client svc = Some r"
  shows "fst (r_get cl (Redis_make_key svc key namespace) r) = Inl e \<Longrightarrow>
           fst (Redis_get cl lib svc key namespace) = Inr PyNone"
    and "serialize_value lib v = Inl e \<Longrightarrow>
           fst (Redis_set cl lib svc key v ttl namespace) = Inr False"
    and "serialize_value lib v = Inr sv \<Longrightarrow>
         fst (r_setex cl (Redis_make_key svc key namespace)
                (ttl_or ttl (RedisCacheService.default_ttl svc)) sv r) = Inl e \<Longrightarrow>
           fst (Redis_set cl lib svc key v ttl namespace) = Inr False"
    and "fst (r_delete cl [Redis_make_key svc key namespace] r) = Inl e \<Longrightarrow>
           fst (Redis_delete cl svc key namespace) = Inr False"
    and "fst (r_exists cl (Redis_make_key svc key namespace) r) = Inl e \<Longrightarrow>
           fst (Redis_exists cl svc key namespace) = Inr False"
    and "fst (r_keys cl (key_prefix svc @ namespace @ '':*'') r) = Inl e \<Longrightarrow>
           fst (Redis_clear_namespace cl svc namespace) = Inr 0"
    and "r_keys cl (key_prefix svc @ namespace @ '':*'') r = (Inr ks, r') \<Longrightarrow>
         fst (r_delete cl ks r') = Inl e \<Longrightarrow>
           fst (Redis_clear_namespace cl svc namespace) = Inr 0"
  using assms
  by (auto simp: Redis_get_def Redis_set_def Redis_delete_def Redis_exists_def
      Redis_clear_namespace_def Let_def split: prod.splits sum.splits option.splits)

lemma Redis_not_connected:
  assumes "RedisCacheService.redis_client svc = None"
  shows "fst (Redis_get cl lib svc key namespace) = Inl not_connected"
    and "fst (Redis_set cl lib svc key v ttl namespace) = Inl not_connected"
    and "fst (Redis_delete cl svc key namespace) = Inl not_connected"
    and "fst (Redis_exists cl svc key namespace) = Inl not_connected"
    and "fst (Redis_clear_namespace cl svc namespace) = Inl not_connected"
  using assms
  by (simp_all add: Redis_get_def Redis_set_def Redis_delete_def Redis_exists_def
      Redis_clear_namespace_def)

lemma RedisSession_not_connected:
  assumes "RedisSessionManager.redis_client mgr = None"
  shows "fst (RedisSession_get_session cl lib mgr session_id) = Inl not_connected"
    and "fst (RedisSession_get_user_session cl lib mgr user) = Inl not_connected"
    and "fst (RedisSession_create_session cl lib mgr new_id now1 now2 user workspace)
           = Inl not_connected"
    and "fst (RedisSession_end_session cl lib mgr now session_id) = Inl not_connected"
    and "fst (RedisSession_cleanup_expired_sessions cl lib mgr now now_end) = Inl not_connected"
    and "fst (RedisSession_get_active_session_count cl mgr) = Inl not_connected"
  using assms
  by (simp_all add: RedisSession_get_session_def RedisSession_get_user_session_def
      RedisSession_create_session_def RedisSession_end_session_def
      RedisSession_cleanup_expired_sessions_def RedisSession_get_active_session_count_def
      when_connected_fst)

lemma RedisSession_backend_raises:
  assumes "RedisSessionManager.redis_client mgr = Some r"
  shows "fst (r_hgetall cl (''session:'' @ session_id) r) = Inl e \<Longrightarrow>
           fst (RedisSession_get_session cl lib mgr session_id) = Inl e"
    and "fst (r_get cl (''user_session:'' @ user) r) = Inl e \<Longrightarrow>
           fst (RedisSession_get_user_session cl lib mgr user) = Inl e"
    and "fst (r_get cl (''user_session:'' @ user) r) = Inl e \<Longrightarrow>
           fst (RedisSession_create_session cl lib mgr new_id now1 now2 user workspace) = Inl e"
    and "fst (r_hgetall cl (''session:'' @ session_id) r) = Inl e \<Longrightarrow>
           fst (RedisSession_end_session cl lib mgr now session_id) = Inl e"
    and "fst (r_scard cl ''active_sessions'' r) = Inl e \<Longrightarrow>
           fst (RedisSession_get_active_session_count cl mgr) = Inl e"
  using assms
  by (auto simp: RedisSession_get_session_def RedisSession_get_user_session_def
      RedisSession_create_session_def RedisSession_end_session_def
      RedisSession_get_active_session_count_def when_connected_fst
      get_session_on_def get_user_session_on_def create_session_on_def end_session_on_def
      split: prod.splits sum.splits option.splits)

text \<open>
  C7, as the code has it. Before the connection is established every operation of the
  durable cache store and of the durable session store raises the RuntimeError
  ``Redis client not connected''. Once connected, the cache-store operations never raise,
  whatever the backend does: an error of the backend during \<open>get\<close> gives \<open>None\<close>, during
  \<open>set\<close>, \<open>delete\<close> or \<open>exists\<close> gives \<open>False\<close>, and during \<open>clear_namespace\<close> gives
  0. The session-store operations do not catch: an error that the backend raises in
  \<open>get_session\<close>, \<open>get_user_session\<close>, \<open>create_session\<close>, \<open>end_session\<close> or
  \<open>get_active_session_count\<close> reaches the caller.
\<close>

theorem backend_error_handling:
  "(RedisCacheService.redis_client svc = None \<longrightarrow>
      fst (Redis_get cl lib svc key namespace) = Inl not_connected
      \<and> fst (Redis_set cl lib svc key v ttl namespace) = Inl not_connected
      \<and> fst (Redis_delete cl svc key namespace) = Inl not_connected
      \<and> fst (Redis_exists cl svc key namespace) = Inl not_connected
      \<and> fst (Redis_clear_namespace cl svc namespace) = Inl not_connected)
   \<and> (RedisCacheService.redis_client svc = Some r \<longrightarrow>
      (\<exists>x. fst (Redis_get cl lib svc key namespace) = Inr x)
      \<and> (\<exists>b. fst (Redis_set cl lib svc key v ttl namespace) = Inr b)
      \<and> (\<exists>b. fst (Redis_delete cl svc key namespace) = Inr b)
      \<and> (\<exists>b. fst (Redis_exists cl svc key namespace) = Inr b)
      \<and> (\<exists>n. fst (Redis_clear_namespace cl svc namespace) = Inr n)
      \<and> (fst (r_get cl (Redis_make_key svc key namespace) r) = Inl e \<longrightarrow>
            fst (Redis_get cl lib svc key namespace) = Inr PyNone)
      \<and> (serialize_value lib v = Inl e \<longrightarrow>
            fst (Redis_set cl lib svc key v ttl namespace) = Inr False)
      \<and> (serialize_value lib v = Inr sv
          \<and> fst (r_setex cl (Redis_make_key svc key namespace)
                (ttl_or ttl (RedisCacheService.default_ttl svc)) sv r) = Inl e \<longrightarrow>
            fst (Redis_set cl lib svc key v ttl namespace) = Inr False)
      \<and> (fst (r_delete cl [Redis_make_key svc key namespace] r) = Inl e \<longrightarrow>
            fst (Redis_delete cl svc key namespace) = Inr False)
      \<and> (fst (r_exists cl (Redis_make_key svc key namespace) r) = Inl e \<longrightarrow>
            fst (Redis_exists cl svc key namespace) = Inr False)
      \<and> (fst (r_keys cl (key_prefix svc @ namespace @ '':*'') r) = Inl e \<longrightarrow>
            fst (Redis_clear_namespace cl svc namespace) = Inr 0)
      \<and> (r_keys cl (key_prefix svc @ namespace @ '':*'') r = (Inr ks, r')
          \<and> fst (r_delete cl ks r') = Inl e \<longrightarrow>
            fst (Redis_clear_namespace cl svc namespace) = Inr 0))
   \<and> (RedisSessionManager.redis_client mgr = None \<longrightarrow>
      fst (RedisSession_get_session cl lib' mgr session_id) = Inl not_connected
      \<and> fst (RedisSession_get_user_session cl lib' mgr user) = Inl not_connected
      \<and> fst (RedisSession_create_session cl lib' mgr new_id now1 now2 user workspace)
           = Inl not_connected
      \<and> fst (RedisSession_end_session cl lib' mgr now session_id) = Inl not_connected
      \<and> fst (RedisSession_cleanup_expired_sessions cl lib' mgr now now_end) = Inl not_connected
      \<and> fst (RedisSession_get_active_session_count cl mgr) = Inl not_connected)
   \<and> (RedisSessionManager.redis_client mgr = Some r \<longrightarrow>
      (fst (r_hgetall cl (''session:'' @ session_id) r) = Inl e \<longrightarrow>
         fst (RedisSession_get_session cl lib' mgr session_id) = Inl e
         \<and> fst (RedisSession_end_session cl lib' mgr now session_id) = Inl e)
      \<and> (fst (r_get cl (''user_session:'' @ user) r) = Inl e \<longrightarrow>
         fst (RedisSession_get_user_session cl lib' mgr user) = Inl e
         \<and> fst (RedisSession_create_session cl lib' mgr new_id now1 now2 user workspace) = Inl e)
      \<and> (fst (r_scard cl ''active_sessions'' r) = Inl e \<longrightarrow>
         fst (RedisSession_get_active_session_count cl mgr) = Inl e))"
proof (intro conjI impI)
qed (simp_all add: Redis_not_connected Redis_get_connected Redis_set_connected
      Redis_delete_connected Redis_exists_connected Redis_clear_namespace_connected
      Redis_backend_raises RedisSession_not_connected RedisSession_backend_raises)

theorem backend_error_handling_witness:
  "fst (Redis_get broken_redis json0 (cache_connected ()) ''k'' ''default'') = Inr PyNone
   \<and> fst (Redis_set broken_redis json0 (cache_connected ()) ''k'' (PyVal 1) None ''default'')
       = Inr False
   \<and> fst (Redis_delete broken_redis (cache_connected ()) ''k'' ''default'') = Inr False
   \<and> fst (Redis_exists broken_redis (cache_connected ()) ''k'' ''default'') = Inr False
   \<and> fst (Redis_clear_namespace broken_redis (cache_connected ()) ''default'') = Inr 0
   \<and> fst (Redis_clear_namespace delete_fails_redis (cache_connected ()) ''default'') = Inr 0
   \<and> fst (Redis_get broken_redis json0 RedisCacheService_init ''k'' ''default'')
       = Inl not_connected
   \<and> fst (RedisSession_get_session broken_redis lib0 RedisSessionManager_init ''s1'')
       = Inl not_connected
   \<and> fst (RedisSession_get_session broken_redis lib0 (connected ()) ''s1'')
       = Inl connection_lost"
proof -
  have c: "RedisCacheService.redis_client (cache_connected ()) = Some ()"
    by (simp add: cache_connected_def)
  have n: "RedisCacheService.redis_client (RedisCacheService_init :: unit RedisCacheService) = None"
    by (simp add: RedisCacheService_init_def)
  have sc: "RedisSessionManager.redis_client (connected ()) = Some ()"
    by (simp add: connected_def)
  have sn: "RedisSessionManager.redis_client (RedisSessionManager_init :: unit RedisSessionManager)
              = None"
    by (simp add: RedisSessionManager_init_def)
  have b: "fst (r_get broken_redis k ()) = Inl connection_lost"
    "fst (r_setex broken_redis k t sv ()) = Inl connection_lost"
    "fst (r_delete broken_redis ks ()) = Inl connection_lost"
    "fst (r_exists broken_redis k ()) = Inl connection_lost"
    "fst (r_keys broken_redis k ()) = Inl connection_lost"
    "fst (r_hgetall broken_redis k ()) = Inl connection_lost"
    for k t sv ks
    by (simp_all add: broken_redis_def)
  have d: "r_keys delete_fails_redis p () = (Inr [''mcp_cache:default:k''], ())"
    "fst (r_delete delete_fails_redis ks ()) = Inl connection_lost" for p ks
    by (simp_all add: delete_fails_redis_def broken_redis_def)
  have s: "serialize_value json0 (PyVal 1) = Inr ''{}''"
    by (simp add: serialize_value_def json0_def)
  note t1 = backend_error_handling [of "cache_connected ()" broken_redis json0 "''k''"
      "''default''" "PyVal 1" None "()" connection_lost "''{}''" "[]" "()"
      "connected ()" lib0 "''s1''" "''u1''" "''id''" 0 0 None 0 "\<lambda>x. 0"]
  note t2 = backend_error_handling [of "RedisCacheService_init" broken_redis json0 "''k''"
      "''default''" "PyVal 1" None "()" connection_lost "''{}''" "[]" "()"
      "RedisSessionManager_init" lib0 "''s1''" "''u1''" "''id''" 0 0 None 0 "\<lambda>x. 0"]
  note t3 = backend_error_handling [of "cache_connected ()" delete_fails_redis json0 "''k''"
      "''default''" "PyVal 1" None "()" connection_lost "''{}''" "[''mcp_cache:default:k'']" "()"
      "connected ()" lib0 "''s1''" "''u1''" "''id''" 0 0 None 0 "\<lambda>x. 0"]
  from t1 c sc b s have p1:
    "fst (Redis_get broken_redis json0 (cache_connected ()) ''k'' ''default'') = Inr PyNone"
    "fst (Redis_set broken_redis json0 (cache_connected ()) ''k'' (PyVal 1) None ''default'')
       = Inr False"
    "fst (Redis_delete broken_redis (cache_connected ()) ''k'' ''default'') = Inr False"
    "fst (Redis_exists broken_redis (cache_connected ()) ''k'' ''default'') = Inr False"
    "fst (Redis_clear_namespace broken_redis (cache_connected ()) ''default'') = Inr 0"
    "fst (RedisSession_get_session broken_redis lib0 (connected ()) ''s1'') = Inl connection_lost"
    by simp_all
  from t2 n sn have p2:
    "fst (Redis_get broken_redis json0 RedisCacheService_init ''k'' ''default'') = Inl not_connected"
    "fst (RedisSession_get_session broken_redis lib0 RedisSessionManager_init ''s1'')
       = Inl not_connected"
    by simp_all
  from t3 c d have p3:
    "fst (Redis_clear_namespace delete_fails_redis (cache_connected ()) ''default'') = Inr 0"
    by (simp add: cache_connected_def)
  from p1 p2 p3 show ?thesis by simp
qed

text \<open>
  C7 as stated fails for the session store: with the connection established, an error that
  the backend raises during \<open>get_session\<close> reaches the caller.
\<close>

theorem session_store_propagates_counterexample:
  "fst (RedisSession_get_session broken_redis lib0 (connected ()) ''s1'') = Inl connection_lost
   \<and> fst (RedisSession_get_session broken_redis lib0 (connected ()) ''s1'') \<noteq> Inr None"
  by (simp add: RedisSession_get_session_def when_connected_def connected_def
      get_session_on_def broken_redis_def)

end
